theory Spec2Isabelle
  imports Main "HOL-Library.Sublist"
begin

section \<open>Values and wire types (types.ts)\<close>

text \<open>
  A value of TypeScript type \<open>unknown\<close> is a \<open>jsvalue\<close>; \<open>JUndefined\<close> is the absent
  value. A typed optional property (\<open>x?: string\<close>) is an \<open>option\<close>, with \<open>None\<close> for
  \<open>undefined\<close>. An object of type \<open>Record<string, unknown>\<close> is the list of its entries
  in property order.
\<close>

datatype jsvalue =
    JUndefined
  | JNull
  | JBool bool
  | JNum int
  | JStr string
  | JArr "jsvalue list"
  | JObj "(string \<times> jsvalue) list"

type_synonym jsobject = "(string \<times> jsvalue) list"

fun obj_set :: "jsobject \<Rightarrow> string \<Rightarrow> jsvalue \<Rightarrow> jsobject" where
  "obj_set [] k v = [(k, v)]"
| "obj_set ((k', v') # rest) k v =
     (if k' = k then (k, v) # rest else (k', v') # obj_set rest k v)"

text \<open>The object literal \<open>{ ...target, ...source }\<close>: later properties overwrite in place.\<close>

definition obj_spread :: "jsobject \<Rightarrow> jsobject \<Rightarrow> jsobject" where
  "obj_spread target source = foldl (\<lambda>acc (k, v). obj_set acc k v) target source"

datatype TrajectoryEventType =
  task_start | task_end | llm_call | tool_call | agent_definition | log_event

datatype TaskStatus = status_success | status_error | status_cancelled

datatype Response = Response (resp_text: "string option") (resp_rest: jsobject)

datatype Reasoning = Reasoning (thinking: "string option") (reasoning_rest: jsobject)

record UsagePayload =
  input_tokens :: "int option"
  output_tokens :: "int option"
  reasoning_tokens :: "int option"
  total_tokens :: int

datatype Payload =
    TaskStartPayload (task: string) (start_metadata: jsobject)
  | TaskEndPayload (status: TaskStatus) (final_answer: "string option")
      (end_error: "string option") (end_metadata: "jsobject option")
  | LLMCallPayload (messages: "(string \<times> string) list") (model_params_model: "string option")
      (model_params_provider: "string option") (response: "Response option")
      (usage: "UsagePayload option") (reasoning: "Reasoning option") (llm_error: "string option")
  | ToolCallPayload (tool_name: string) (tool_input: jsvalue) (tool_output: jsvalue)
      (tool_error: "string option") (duration_ms: "int option")
  | AgentDefinitionPayload (def_agent_id: string) (def_name: "string option")
      (def_description: "string option") (def_tools: "string list option")
      (def_system_prompt: "string option") (def_parent_agent_id: "string option")

text \<open>
  \<open>TrajectoryEvent\<close> of types.ts. The interface declares \<open>run_id: number\<close> and
  \<open>task_id?: number\<close>; the fields hold whatever \<open>createEvent\<close> stores in them at run
  time, so both are \<open>jsvalue\<close>s. \<open>created_at\<close> is the millisecond timestamp that
  \<open>toISOString\<close> renders. \<open>parent_agent_id\<close> is \<open>None\<close> for \<open>null\<close>.
\<close>

record TrajectoryEvent =
  event_id :: string
  run_id :: jsvalue
  agent_id :: string
  parent_agent_id :: "string option"
  invocation_id :: string
  task_id :: jsvalue
  event_type :: TrajectoryEventType
  payload :: Payload
  created_at :: int

record IngestResponse =
  ingested :: int
  warning :: "string option"

section \<open>Constants (constants.ts)\<close>

record BufferSettings =
  maxSize :: nat
  flushIntervalMs :: int
  maxRetries :: nat
  retryDelayMs :: int

definition BUFFER_SETTINGS :: BufferSettings where
  "BUFFER_SETTINGS = \<lparr> maxSize = 100, flushIntervalMs = 5000, maxRetries = 3, retryDelayMs = 1000 \<rparr>"

definition MOLTBOT_AGENT_ID :: string where
  "MOLTBOT_AGENT_ID = ''moltbot''"

definition LLM_DEBOUNCE_MS :: int where
  "LLM_DEBOUNCE_MS = 100"

section \<open>Module state\<close>

record ActiveTrajectory =
  runId :: string
  sessionKey :: string
  taskId :: string
  agentId :: string
  startedAt :: int
  events :: "TrajectoryEvent list"

record PendingData =
  pending_text :: string
  pending_model :: "string option"
  pending_provider :: "string option"

text \<open>
  The module-level variables of trajectory.ts and event-listener.ts, and the environment
  they read and write. A live timeout is stored as the time at which it is due, so a
  handle is \<open>Some due\<close> and \<open>null\<close> is \<open>None\<close>; every \<open>clearTimeout\<close> of the source
  comes with the removal of the handle, so the stored handles are exactly the live timers.
  \<open>unsubscribe\<close> is \<open>True\<close> when the listener holds an unsubscribe function.

  Environment: \<open>marloClient\<close> says whether \<open>getMarloClient()\<close> returns a client;
  \<open>clock\<close> is \<open>Date.now()\<close>; \<open>randomUUID()\<close> returns \<open>uuids n\<close> at its \<open>n\<close>-th call;
  \<open>ingestCalls\<close> lists the batches handed to \<open>client.ingestEvents\<close>, in order;
  \<open>warnings\<close> lists the lines written with \<open>log.warn\<close>. Calls of \<open>log.debug\<close> and
  \<open>log.info\<close> change nothing here and are left out.
\<close>

record state =
  eventBuffer :: "TrajectoryEvent list"
  flushTimer :: "int option"
  activeTrajectories :: "string \<rightharpoonup> ActiveTrajectory"
  runIdCounter :: int
  toolStartTimes :: "string \<rightharpoonup> int"
  toolInputsById :: "string \<rightharpoonup> jsvalue"
  runIdToSession :: "string \<rightharpoonup> string"
  lastLLMTextBySession :: "string \<rightharpoonup> string"
  llmDebounceTimers :: "string \<rightharpoonup> int"
  llmPendingData :: "string \<rightharpoonup> PendingData"
  unsubscribe :: bool
  marloClient :: bool
  clock :: int
  uuids :: "nat \<Rightarrow> string"
  uuidsDrawn :: nat
  ingestCalls :: "TrajectoryEvent list list"
  warnings :: "string list"

text \<open>The state when both modules have just been loaded: \<open>runIdCounter = Date.now()\<close>.\<close>

definition initial_state :: "int \<Rightarrow> (nat \<Rightarrow> string) \<Rightarrow> bool \<Rightarrow> state" where
  "initial_state now ids client =
     \<lparr> eventBuffer = [], flushTimer = None, activeTrajectories = Map.empty,
       runIdCounter = now, toolStartTimes = Map.empty, toolInputsById = Map.empty,
       runIdToSession = Map.empty, lastLLMTextBySession = Map.empty,
       llmDebounceTimers = Map.empty, llmPendingData = Map.empty,
       unsubscribe = False, marloClient = client, clock = now, uuids = ids,
       uuidsDrawn = 0, ingestCalls = [], warnings = [] \<rparr>"

section \<open>JavaScript primitives\<close>

text \<open>\<open>String(n)\<close> for an integer \<open>n\<close>: its decimal numeral.\<close>

definition digit_char :: "nat \<Rightarrow> char" where
  "digit_char d = char_of (48 + d)"

function String_of_nat :: "nat \<Rightarrow> string" where
  "String_of_nat n =
     (if n < 10 then [digit_char n] else String_of_nat (n div 10) @ [digit_char (n mod 10)])"
  by pat_completeness auto
termination
  by (relation "measure id") auto

declare String_of_nat.simps [simp del]

definition String_of_number :: "int \<Rightarrow> string" where
  "String_of_number i =
     (if i < 0 then CHR ''-'' # String_of_nat (nat (- i)) else String_of_nat (nat i))"

text \<open>Truthiness of an optional string and of an optional number.\<close>

definition truthy_string :: "string option \<Rightarrow> bool" where
  "truthy_string x = (case x of None \<Rightarrow> False | Some t \<Rightarrow> t \<noteq> [])"

definition truthy_number :: "int option \<Rightarrow> bool" where
  "truthy_number x = (case x of None \<Rightarrow> False | Some n \<Rightarrow> n \<noteq> 0)"

definition randomUUID :: "state \<Rightarrow> string \<times> state" where
  "randomUUID s = (uuids s (uuidsDrawn s), s\<lparr> uuidsDrawn := Suc (uuidsDrawn s) \<rparr>)"

section \<open>Trajectory capture (trajectory.ts)\<close>

definition generateRunId :: "state \<Rightarrow> int \<times> state" where
  "generateRunId s = (runIdCounter s, s\<lparr> runIdCounter := runIdCounter s + 1 \<rparr>)"

definition generateTaskId :: "state \<Rightarrow> string \<times> state" where
  "generateTaskId s = randomUUID s"

definition generateEventId :: "state \<Rightarrow> string \<times> state" where
  "generateEventId s = randomUUID s"

definition createEvent ::
  "ActiveTrajectory \<Rightarrow> TrajectoryEventType \<Rightarrow> Payload \<Rightarrow> state \<Rightarrow> TrajectoryEvent \<times> state" where
  "createEvent trajectory eventType pl s =
     (case generateEventId s of (eid, s1) \<Rightarrow>
        (\<lparr> event_id = eid,
           run_id = JStr (runId trajectory),
           agent_id = agentId trajectory,
           parent_agent_id = None,
           invocation_id = runId trajectory @ ''-'' @ taskId trajectory,
           task_id = JStr (taskId trajectory),
           event_type = eventType,
           payload = pl,
           created_at = clock s1 \<rparr>, s1))"

text \<open>
  \<open>flushBuffer\<close> is asynchronous. \<open>flushBuffer\<close> below is its synchronous part, which
  runs up to the \<open>await\<close> of \<open>client.ingestEvents(events)\<close>: it returns \<open>Resolved\<close>
  when the promise is already settled, and \<open>AwaitingIngest events\<close> when the batch has
  been handed to the client and the function is suspended. \<open>flushBuffer_resume\<close> is the
  rest, run when the client's promise settles with \<open>Inr response\<close> or rejects with
  \<open>Inl error\<close>; its result is the settlement of \<open>flushBuffer\<close>'s own promise.
\<close>

datatype FlushProgress = Resolved | AwaitingIngest "TrajectoryEvent list"

definition flushBuffer :: "state \<Rightarrow> FlushProgress \<times> state" where
  "flushBuffer s =
     (let s1 = (if flushTimer s \<noteq> None then s\<lparr> flushTimer := None \<rparr> else s) in
      if length (eventBuffer s1) = 0 then (Resolved, s1)
      else
        let evs = eventBuffer s1;
            s2 = s1\<lparr> eventBuffer := [] \<rparr>
        in if \<not> marloClient s2 then (Resolved, s2)
           else (AwaitingIngest evs, s2\<lparr> ingestCalls := ingestCalls s2 @ [evs] \<rparr>))"

definition flushBuffer_resume :: "string + IngestResponse \<Rightarrow> state \<Rightarrow> (string + unit) \<times> state" where
  "flushBuffer_resume outcome s =
     (case outcome of
        Inr _ \<Rightarrow> (Inr (), s)
      | Inl err \<Rightarrow>
          (Inr (), s\<lparr> warnings := warnings s @ [''Failed to flush events to Marlo: '' @ err] \<rparr>))"

definition bufferEvent :: "TrajectoryEvent \<Rightarrow> state \<Rightarrow> state" where
  "bufferEvent event s =
     (let s1 = s\<lparr> eventBuffer := eventBuffer s @ [event] \<rparr>;
          s2 = (if flushTimer s1 = None
                then s1\<lparr> flushTimer := Some (clock s1 + flushIntervalMs BUFFER_SETTINGS) \<rparr>
                else s1)
      in if length (eventBuffer s2) \<ge> maxSize BUFFER_SETTINGS then snd (flushBuffer s2) else s2)"

record StartParams =
  st_sessionKey :: string
  st_task :: string
  st_channel :: "string option"
  st_agentId :: "string option"
  st_metadata :: "jsobject option"

definition startTrajectory :: "StartParams \<Rightarrow> state \<Rightarrow> ActiveTrajectory \<times> state" where
  "startTrajectory params s =
     (case generateRunId s of (rid, s1) \<Rightarrow>
      case generateTaskId s1 of (tid, s2) \<Rightarrow>
        let aid = (case st_agentId params of Some a \<Rightarrow> a | None \<Rightarrow> MOLTBOT_AGENT_ID);
            trajectory = \<lparr> runId = String_of_number rid, sessionKey = st_sessionKey params,
                           taskId = tid, agentId = aid, startedAt = clock s2, events = [] \<rparr>;
            s3 = s2\<lparr> activeTrajectories := (activeTrajectories s2)(st_sessionKey params \<mapsto> trajectory) \<rparr>
        in case createEvent trajectory task_start
                  (TaskStartPayload (st_task params)
                     (obj_spread
                        [(''channel'', (case st_channel params of None \<Rightarrow> JUndefined | Some c \<Rightarrow> JStr c))]
                        (case st_metadata params of None \<Rightarrow> [] | Some m \<Rightarrow> m))) s3 of
             (event, s4) \<Rightarrow> (trajectory, bufferEvent event s4))"

record EndParams =
  en_sessionKey :: string
  en_status :: TaskStatus
  en_finalAnswer :: "string option"
  en_error :: "string option"
  en_metadata :: "jsobject option"

definition endTrajectory :: "EndParams \<Rightarrow> state \<Rightarrow> state" where
  "endTrajectory params s =
     (case activeTrajectories s (en_sessionKey params) of
        None \<Rightarrow> s
      | Some trajectory \<Rightarrow>
          (case createEvent trajectory task_end
                  (TaskEndPayload (en_status params) (en_finalAnswer params)
                     (en_error params) (en_metadata params)) s of
             (event, s1) \<Rightarrow>
               let s2 = bufferEvent event s1;
                   s3 = s2\<lparr> activeTrajectories := (activeTrajectories s2)(en_sessionKey params := None) \<rparr>
               in snd (flushBuffer s3)))"

record UsageParams =
  inputTokens :: "int option"
  outputTokens :: "int option"
  reasoningTokens :: "int option"

record LLMCallParams =
  lc_sessionKey :: string
  lc_messages :: "(string \<times> string) list"
  lc_model :: "string option"
  lc_provider :: "string option"
  lc_response :: "Response option"
  lc_usage :: "UsageParams option"
  lc_reasoning :: "Reasoning option"
  lc_error :: "string option"

definition nullish_zero :: "int option \<Rightarrow> int" where
  "nullish_zero x = (case x of None \<Rightarrow> 0 | Some n \<Rightarrow> n)"

definition logLLMCall :: "LLMCallParams \<Rightarrow> state \<Rightarrow> state" where
  "logLLMCall params s =
     (case activeTrajectories s (lc_sessionKey params) of
        None \<Rightarrow> s
      | Some trajectory \<Rightarrow>
          (case createEvent trajectory llm_call
                  (LLMCallPayload (lc_messages params) (lc_model params) (lc_provider params)
                     (lc_response params)
                     (case lc_usage params of
                        None \<Rightarrow> None
                      | Some u \<Rightarrow>
                          Some \<lparr> input_tokens = inputTokens u,
                                 output_tokens = outputTokens u,
                                 reasoning_tokens = reasoningTokens u,
                                 total_tokens = nullish_zero (inputTokens u)
                                   + nullish_zero (outputTokens u)
                                   + nullish_zero (reasoningTokens u) \<rparr>)
                     (lc_reasoning params) (lc_error params)) s of
             (event, s1) \<Rightarrow> bufferEvent event s1))"

record ToolCallParams =
  tc_sessionKey :: string
  tc_toolName :: string
  tc_toolInput :: jsvalue
  tc_toolOutput :: jsvalue
  tc_error :: "string option"
  tc_durationMs :: "int option"

definition logToolCall :: "ToolCallParams \<Rightarrow> state \<Rightarrow> state" where
  "logToolCall params s =
     (case activeTrajectories s (tc_sessionKey params) of
        None \<Rightarrow> s
      | Some trajectory \<Rightarrow>
          (case createEvent trajectory tool_call
                  (ToolCallPayload (tc_toolName params) (tc_toolInput params)
                     (tc_toolOutput params) (tc_error params) (tc_durationMs params)) s of
             (event, s1) \<Rightarrow> bufferEvent event s1))"

record AgentDefinitionParams =
  ad_sessionKey :: string
  ad_agentId :: string
  ad_name :: "string option"
  ad_description :: "string option"
  ad_tools :: "string list option"
  ad_systemPrompt :: "string option"
  ad_parentAgentId :: "string option"

definition logAgentDefinition :: "AgentDefinitionParams \<Rightarrow> state \<Rightarrow> state" where
  "logAgentDefinition params s =
     (case activeTrajectories s (ad_sessionKey params) of
        None \<Rightarrow> s
      | Some trajectory \<Rightarrow>
          (case createEvent trajectory agent_definition
                  (AgentDefinitionPayload (ad_agentId params) (ad_name params)
                     (ad_description params) (ad_tools params) (ad_systemPrompt params)
                     (ad_parentAgentId params)) s of
             (event, s1) \<Rightarrow> bufferEvent event s1))"

definition getActiveTrajectory :: "string \<Rightarrow> state \<Rightarrow> ActiveTrajectory option" where
  "getActiveTrajectory k s = activeTrajectories s k"

definition hasActiveTrajectory :: "string \<Rightarrow> state \<Rightarrow> bool" where
  "hasActiveTrajectory k s = (activeTrajectories s k \<noteq> None)"

section \<open>Event listener (event-listener.ts)\<close>

text \<open>
  The \<open>data\<close> of an agent event, with the properties the handlers read, each at the type
  its handler casts it to; \<open>args\<close>, \<open>result\<close>, \<open>error\<close> and \<open>isError\<close> stay
  \<open>unknown\<close>. The type \<open>AgentEventPayload\<close> is declared in infra/agent-events.js, which
  is not among the sources; the record has the four properties that \<open>handleAgentEvent\<close>
  takes from it.
\<close>

record DataUsage =
  du_inputTokens :: "int option"
  du_outputTokens :: "int option"
  du_cacheRead :: "int option"
  du_cacheWrite :: "int option"

record EventData =
  d_phase :: "string option"
  d_name :: "string option"
  d_toolCallId :: "string option"
  d_args :: jsvalue
  d_result :: jsvalue
  d_error :: jsvalue
  d_isError :: jsvalue
  d_text :: "string option"
  d_thinking :: "string option"
  d_model :: "string option"
  d_provider :: "string option"
  d_usage :: "DataUsage option"

record AgentEventPayload =
  ev_runId :: string
  ev_stream :: string
  ev_data :: EventData
  ev_sessionKey :: "string option"

text \<open>\<open>a ?? b\<close> on values of type \<open>unknown\<close>.\<close>

definition nullish_or :: "jsvalue \<Rightarrow> jsvalue \<Rightarrow> jsvalue" where
  "nullish_or a b = (if a = JUndefined \<or> a = JNull then b else a)"

definition map_get :: "(string \<rightharpoonup> jsvalue) \<Rightarrow> string \<Rightarrow> jsvalue" where
  "map_get m k = (case m k of None \<Rightarrow> JUndefined | Some v \<Rightarrow> v)"

definition handleToolEvent :: "string \<Rightarrow> EventData \<Rightarrow> state \<Rightarrow> state" where
  "handleToolEvent sk data s =
     (if \<not> truthy_string (d_name data) then s
      else if d_phase data = Some ''start'' then
        (if truthy_string (d_toolCallId data)
         then s\<lparr> toolStartTimes := (toolStartTimes s)(the (d_toolCallId data) \<mapsto> clock s),
                 toolInputsById := (toolInputsById s)
                   (the (d_toolCallId data) \<mapsto> nullish_or (d_args data) (JObj [])) \<rparr>
         else s)
      else if d_phase data = Some ''result'' \<or> d_phase data = Some ''end''
              \<or> d_phase data = Some ''error'' then
        (let timed = (truthy_string (d_toolCallId data)
                        \<and> toolStartTimes s (the (d_toolCallId data)) \<noteq> None);
             durationMs = (if timed
                           then Some (clock s - the (toolStartTimes s (the (d_toolCallId data))))
                           else None);
             s1 = (if timed
                   then s\<lparr> toolStartTimes := (toolStartTimes s)(the (d_toolCallId data) := None) \<rparr>
                   else s);
             toolInput = (if truthy_string (d_toolCallId data)
                          then nullish_or (map_get (toolInputsById s1) (the (d_toolCallId data)))
                                 (nullish_or (d_args data) (JObj []))
                          else nullish_or (d_args data) (JObj []));
             s2 = (if truthy_string (d_toolCallId data)
                   then s1\<lparr> toolInputsById := (toolInputsById s1)(the (d_toolCallId data) := None) \<rparr>
                   else s1);
             isError = (d_phase data = Some ''error'' \<or> d_isError data = JBool True)
         in logToolCall
              \<lparr> tc_sessionKey = sk,
                tc_toolName = the (d_name data),
                tc_toolInput = toolInput,
                tc_toolOutput = (if \<not> isError then d_result data else JUndefined),
                tc_error = (if isError
                            then (case d_error data of
                                    JStr e \<Rightarrow> Some e
                                  | _ \<Rightarrow> (case d_result data of
                                            JStr r \<Rightarrow> Some r
                                          | _ \<Rightarrow> Some ''Unknown error''))
                            else None),
                tc_durationMs = durationMs \<rparr> s2)
      else s)"

text \<open>The callback of the debounce timer that \<open>handleAssistantEvent\<close> sets for a session.\<close>

definition llmDebounceCallback :: "string \<Rightarrow> state \<Rightarrow> state" where
  "llmDebounceCallback sk s =
     (let s1 = (case llmPendingData s sk of
                  None \<Rightarrow> s
                | Some pending \<Rightarrow>
                    (let s' = logLLMCall
                               \<lparr> lc_sessionKey = sk, lc_messages = [],
                                 lc_model = pending_model pending,
                                 lc_provider = pending_provider pending,
                                 lc_response = Some (Response (Some (pending_text pending)) []),
                                 lc_usage = None, lc_reasoning = None, lc_error = None \<rparr> s
                     in s'\<lparr> llmPendingData := (llmPendingData s')(sk := None) \<rparr>))
      in s1\<lparr> llmDebounceTimers := (llmDebounceTimers s1)(sk := None) \<rparr>)"

definition handleAssistantEvent :: "string \<Rightarrow> EventData \<Rightarrow> state \<Rightarrow> state" where
  "handleAssistantEvent sk data s =
     (if (case d_usage data of
            None \<Rightarrow> False
          | Some u \<Rightarrow> truthy_number (du_inputTokens u) \<or> truthy_number (du_outputTokens u))
      then logLLMCall
             \<lparr> lc_sessionKey = sk, lc_messages = [], lc_model = d_model data,
               lc_provider = d_provider data, lc_response = None,
               lc_usage = Some \<lparr> inputTokens = du_inputTokens (the (d_usage data)),
                                 outputTokens = du_outputTokens (the (d_usage data)),
                                 reasoningTokens = None \<rparr>,
               lc_reasoning = None, lc_error = None \<rparr> s
      else if \<not> truthy_string (d_text data) \<and> \<not> truthy_string (d_thinking data) then s
      else if truthy_string (d_thinking data) \<and> \<not> truthy_string (d_text data) then
        logLLMCall
          \<lparr> lc_sessionKey = sk, lc_messages = [], lc_model = d_model data,
            lc_provider = d_provider data, lc_response = None, lc_usage = None,
            lc_reasoning = Some (Reasoning (d_thinking data) []), lc_error = None \<rparr> s
      else if truthy_string (d_text data) then
        (let txt = the (d_text data);
             lastText = (case lastLLMTextBySession s sk of None \<Rightarrow> [] | Some t \<Rightarrow> t)
         in if prefix txt lastText then s
            else s\<lparr> llmPendingData := (llmPendingData s)
                       (sk \<mapsto> \<lparr> pending_text = txt, pending_model = d_model data,
                                 pending_provider = d_provider data \<rparr>),
                     lastLLMTextBySession := (lastLLMTextBySession s)(sk \<mapsto> txt),
                     llmDebounceTimers := (llmDebounceTimers s)(sk \<mapsto> clock s + LLM_DEBOUNCE_MS) \<rparr>)
      else s)"

definition handleLifecycleEvent :: "string \<Rightarrow> string \<Rightarrow> EventData \<Rightarrow> state \<Rightarrow> state" where
  "handleLifecycleEvent rid sk data s =
     (if d_phase data = Some ''end''
      then s\<lparr> runIdToSession := (runIdToSession s)(rid := None) \<rparr>
      else s)"

definition handleAgentEvent :: "AgentEventPayload \<Rightarrow> state \<Rightarrow> state" where
  "handleAgentEvent event s =
     (if \<not> marloClient s then s
      else
        let s1 = (if truthy_string (ev_sessionKey event)
                  then s\<lparr> runIdToSession := (runIdToSession s)
                            (ev_runId event \<mapsto> the (ev_sessionKey event)) \<rparr>
                  else s);
            resolvedSessionKey = (case ev_sessionKey event of
                                    Some k \<Rightarrow> Some k
                                  | None \<Rightarrow> runIdToSession s1 (ev_runId event))
        in if \<not> truthy_string resolvedSessionKey then s1
           else if \<not> hasActiveTrajectory (the resolvedSessionKey) s1 then s1
           else if ev_stream event = ''tool''
             then handleToolEvent (the resolvedSessionKey) (ev_data event) s1
           else if ev_stream event = ''assistant''
             then handleAssistantEvent (the resolvedSessionKey) (ev_data event) s1
           else if ev_stream event = ''lifecycle''
             then handleLifecycleEvent (ev_runId event) (the resolvedSessionKey) (ev_data event) s1
           else s1)"

definition startEventListener :: "state \<Rightarrow> state" where
  "startEventListener s = (if unsubscribe s then s else s\<lparr> unsubscribe := True \<rparr>)"

definition stopEventListener :: "state \<Rightarrow> state" where
  "stopEventListener s =
     (if unsubscribe s
      then s\<lparr> unsubscribe := False, toolStartTimes := Map.empty, toolInputsById := Map.empty,
              runIdToSession := Map.empty, lastLLMTextBySession := Map.empty,
              llmDebounceTimers := Map.empty, llmPendingData := Map.empty \<rparr>
      else s)"

definition flushPendingLLMEvents :: "string \<Rightarrow> state \<Rightarrow> state" where
  "flushPendingLLMEvents sk s =
     (let s1 = (if llmDebounceTimers s sk \<noteq> None
                then s\<lparr> llmDebounceTimers := (llmDebounceTimers s)(sk := None) \<rparr>
                else s);
          s2 = (case llmPendingData s1 sk of
                  None \<Rightarrow> s1
                | Some pending \<Rightarrow>
                    (let s' = logLLMCall
                               \<lparr> lc_sessionKey = sk, lc_messages = [],
                                 lc_model = pending_model pending,
                                 lc_provider = pending_provider pending,
                                 lc_response = Some (Response (Some (pending_text pending)) []),
                                 lc_usage = None, lc_reasoning = None, lc_error = None \<rparr> s1
                     in s'\<lparr> llmPendingData := (llmPendingData s')(sk := None) \<rparr>))
      in s2\<lparr> lastLLMTextBySession := (lastLLMTextBySession s2)(sk := None) \<rparr>)"

section \<open>The module as a transition system\<close>

text \<open>
  What can happen to the module: a call of one of its exported functions, a signal from
  the agent-event source, a timer whose delay has elapsed running its callback, the
  settlement of an \<open>ingestEvents\<close> promise, and the passing of time.

  Modelled from the spec: the agent-event source \<open>onAgentEvent\<close> of
  infra/agent-events.js is not among the sources. As the specification describes it
  (\<open>subscribe(handler) -> unsubscribe()\<close>, delivering signals of shape
  \<open>{ runId, stream, data, sessionKey? }\<close>), a signal reaches \<open>handleAgentEvent\<close> while
  the listener is subscribed, and is not seen otherwise.
\<close>

datatype operation =
    OpStartTrajectory StartParams
  | OpEndTrajectory EndParams
  | OpLogLLMCall LLMCallParams
  | OpLogToolCall ToolCallParams
  | OpLogAgentDefinition AgentDefinitionParams
  | OpAgentEvent AgentEventPayload
  | OpFlushPendingLLMEvents string
  | OpFlushBuffer
  | OpStartEventListener
  | OpStopEventListener
  | FlushTimerFires
  | DebounceTimerFires string
  | IngestSettles "string + IngestResponse"
  | ClockAdvances nat

fun step :: "operation \<Rightarrow> state \<Rightarrow> state" where
  "step (OpStartTrajectory p) s = snd (startTrajectory p s)"
| "step (OpEndTrajectory p) s = endTrajectory p s"
| "step (OpLogLLMCall p) s = logLLMCall p s"
| "step (OpLogToolCall p) s = logToolCall p s"
| "step (OpLogAgentDefinition p) s = logAgentDefinition p s"
| "step (OpAgentEvent ev) s = (if unsubscribe s then handleAgentEvent ev s else s)"
| "step (OpFlushPendingLLMEvents sk) s = flushPendingLLMEvents sk s"
| "step OpFlushBuffer s = snd (flushBuffer s)"
| "step OpStartEventListener s = startEventListener s"
| "step OpStopEventListener s = stopEventListener s"
| "step FlushTimerFires s =
     (case flushTimer s of
        None \<Rightarrow> s
      | Some due \<Rightarrow> if due \<le> clock s then snd (flushBuffer s) else s)"
| "step (DebounceTimerFires sk) s =
     (case llmDebounceTimers s sk of
        None \<Rightarrow> s
      | Some due \<Rightarrow> if due \<le> clock s then llmDebounceCallback sk s else s)"
| "step (IngestSettles outcome) s = snd (flushBuffer_resume outcome s)"
| "step (ClockAdvances d) s = s\<lparr> clock := clock s + int d \<rparr>"

fun run :: "operation list \<Rightarrow> state \<Rightarrow> state" where
  "run [] s = s"
| "run (op # ops) s = run ops (step op s)"

text \<open>
  The events handed to the transport so far, in order, followed by those still buffered.
\<close>

definition all_events :: "state \<Rightarrow> TrajectoryEvent list" where
  "all_events s = concat (ingestCalls s) @ eventBuffer s"

section \<open>Observations, invariants and sample inputs\<close>

text \<open>The events among \<open>evs\<close> that carry the run identifier \<open>rid\<close>.\<close>

definition events_of :: "string \<Rightarrow> TrajectoryEvent list \<Rightarrow> TrajectoryEvent list" where
  "events_of rid evs = filter (\<lambda>e. run_id e = JStr rid) evs"

definition boundary :: "TrajectoryEvent \<Rightarrow> bool" where
  "boundary e = (event_type e = task_start \<or> event_type e = task_end)"

text \<open>
  \<open>benign s s'\<close>: from \<open>s\<close> to \<open>s'\<close> the client, the trajectory store and the run
  counter are the same, no event has been lost, and every event that was added belongs to
  a trajectory of the store and is neither a \<open>task_start\<close> nor a \<open>task_end\<close>.
\<close>

definition benign :: "state \<Rightarrow> state \<Rightarrow> bool" where
  "benign s s' \<longleftrightarrow>
     marloClient s' = marloClient s \<and> activeTrajectories s' = activeTrajectories s
     \<and> runIdCounter s' = runIdCounter s
     \<and> (\<exists>new. all_events s' = all_events s @ new
           \<and> (\<forall>e \<in> set new. \<not> boundary e
                 \<and> (\<exists>k t. activeTrajectories s k = Some t \<and> run_id e = JStr (runId t))))"

text \<open>
  \<open>ids_allocated s\<close>: every event so far and every stored trajectory carries the decimal
  string of a run identifier that the counter has already passed.
\<close>

definition ids_allocated :: "state \<Rightarrow> bool" where
  "ids_allocated s \<longleftrightarrow>
     (\<forall>e \<in> set (all_events s). \<exists>n. n < runIdCounter s \<and> run_id e = JStr (String_of_number n))
     \<and> (\<forall>k t. activeTrajectories s k = Some t \<longrightarrow>
           (\<exists>n. n < runIdCounter s \<and> runId t = String_of_number n))"

text \<open>
  \<open>in_progress rid k s\<close>: session \<open>k\<close> holds the trajectory with run identifier \<open>rid\<close>,
  which has been allocated; no other session holds it; and the events of \<open>rid\<close> so far are
  its \<open>task_start\<close> followed by events that are not task boundaries.
\<close>

definition in_progress :: "string \<Rightarrow> string \<Rightarrow> state \<Rightarrow> bool" where
  "in_progress rid k s \<longleftrightarrow>
     marloClient s
     \<and> (\<exists>n. n < runIdCounter s \<and> rid = String_of_number n)
     \<and> (\<exists>t. activeTrajectories s k = Some t \<and> runId t = rid)
     \<and> (\<forall>k' t'. k' \<noteq> k \<longrightarrow> activeTrajectories s k' = Some t' \<longrightarrow> runId t' \<noteq> rid)
     \<and> (\<exists>ts mid. events_of rid (all_events s) = ts # mid \<and> event_type ts = task_start
            \<and> (\<forall>e \<in> set mid. \<not> boundary e))"

text \<open>
  What may happen between the \<open>startTrajectory\<close> and the \<open>endTrajectory\<close> of session \<open>k\<close>:
  anything but a \<open>startTrajectory\<close> or an \<open>endTrajectory\<close> of \<open>k\<close> itself.
\<close>

fun middle_op :: "string \<Rightarrow> operation \<Rightarrow> bool" where
  "middle_op k (OpStartTrajectory p) = (st_sessionKey p \<noteq> k)"
| "middle_op k (OpEndTrajectory q) = (en_sessionKey q \<noteq> k)"
| "middle_op k _ = True"

text \<open>
  The operations the trajectory's own session performs between its start and its end:
  calls of the three logging functions and incoming signals, while time passes.
\<close>

fun log_or_signal :: "operation \<Rightarrow> bool" where
  "log_or_signal (OpLogLLMCall p) = True"
| "log_or_signal (OpLogToolCall p) = True"
| "log_or_signal (OpLogAgentDefinition p) = True"
| "log_or_signal (OpAgentEvent ev) = True"
| "log_or_signal (ClockAdvances d) = True"
| "log_or_signal _ = False"

text \<open>
  \<open>same_buffer s s'\<close>: nothing has been buffered or sent from \<open>s\<close> to \<open>s'\<close>;
  \<open>at_most_one_more s s'\<close>: nothing has been sent and at most one event has been
  buffered.
\<close>

definition same_buffer :: "state \<Rightarrow> state \<Rightarrow> bool" where
  "same_buffer s s' \<longleftrightarrow> ingestCalls s' = ingestCalls s \<and> eventBuffer s' = eventBuffer s"

definition at_most_one_more :: "state \<Rightarrow> state \<Rightarrow> bool" where
  "at_most_one_more s s' \<longleftrightarrow>
     ingestCalls s' = ingestCalls s \<and> length (eventBuffer s') \<le> length (eventBuffer s) + 1"

text \<open>The text recorded for a session, \<open>lastLLMTextBySession.get(sessionKey) ?? ""\<close>.\<close>

definition recorded_text :: "state \<Rightarrow> string \<Rightarrow> string" where
  "recorded_text s sk = (case lastLLMTextBySession s sk of None \<Rightarrow> [] | Some t \<Rightarrow> t)"

definition response_text :: "TrajectoryEvent \<Rightarrow> string option" where
  "response_text e =
     (case payload e of
        LLMCallPayload _ _ _ (Some r) _ _ _ \<Rightarrow> resp_text r
      | _ \<Rightarrow> None)"

text \<open>An assistant signal that carries only response text, and a lifecycle signal.\<close>

definition text_signal :: "string \<Rightarrow> string \<Rightarrow> string \<Rightarrow> AgentEventPayload" where
  "text_signal rid sk txt =
     \<lparr> ev_runId = rid, ev_stream = ''assistant'',
       ev_data = \<lparr> d_phase = None, d_name = None, d_toolCallId = None, d_args = JUndefined,
                   d_result = JUndefined, d_error = JUndefined, d_isError = JUndefined,
                   d_text = Some txt, d_thinking = None, d_model = Some ''gpt'',
                   d_provider = Some ''openai'', d_usage = None \<rparr>,
       ev_sessionKey = Some sk \<rparr>"

definition lifecycle_signal :: "string \<Rightarrow> string option \<Rightarrow> string \<Rightarrow> AgentEventPayload" where
  "lifecycle_signal rid sk ph =
     \<lparr> ev_runId = rid, ev_stream = ''lifecycle'',
       ev_data = \<lparr> d_phase = Some ph, d_name = None, d_toolCallId = None, d_args = JUndefined,
                   d_result = JUndefined, d_error = JUndefined, d_isError = JUndefined,
                   d_text = None, d_thinking = None, d_model = None,
                   d_provider = None, d_usage = None \<rparr>,
       ev_sessionKey = sk \<rparr>"

text \<open>
  The fragments \<open>a\<close>, \<open>ab\<close>, \<open>abc\<close> for one session, any time apart, with no firing of
  the debounce timer in between, and then the timer firing \<open>d3\<close> ms after the last one.
\<close>

definition fragments_trace :: "string \<Rightarrow> string \<Rightarrow> nat \<Rightarrow> nat \<Rightarrow> nat \<Rightarrow> operation list" where
  "fragments_trace rid sk d1 d2 d3 =
     [OpAgentEvent (text_signal rid sk ''a''), ClockAdvances d1,
      OpAgentEvent (text_signal rid sk ''ab''), ClockAdvances d2,
      OpAgentEvent (text_signal rid sk ''abc''), ClockAdvances d3,
      DebounceTimerFires sk]"

subsection \<open>Sample inputs\<close>

definition demo_ids :: "nat \<Rightarrow> string" where
  "demo_ids n = ''uuid-'' @ String_of_nat n"

definition demo_start :: "string \<Rightarrow> StartParams" where
  "demo_start k = \<lparr> st_sessionKey = k, st_task = ''find x'', st_channel = Some ''cli'',
      st_agentId = None, st_metadata = Some [(''source'', JStr ''moltbot'')] \<rparr>"

definition demo_end :: "string \<Rightarrow> EndParams" where
  "demo_end k = \<lparr> en_sessionKey = k, en_status = status_success, en_finalAnswer = Some ''done'',
      en_error = None, en_metadata = None \<rparr>"

definition tool_params :: "string \<Rightarrow> ToolCallParams" where
  "tool_params k = \<lparr> tc_sessionKey = k, tc_toolName = ''search'', tc_toolInput = JObj [],
      tc_toolOutput = JUndefined, tc_error = None, tc_durationMs = None \<rparr>"

definition llm_params :: "string \<Rightarrow> string \<Rightarrow> LLMCallParams" where
  "llm_params k t = \<lparr> lc_sessionKey = k, lc_messages = [], lc_model = None, lc_provider = None,
      lc_response = Some (Response (Some t) []), lc_usage = None, lc_reasoning = None,
      lc_error = None \<rparr>"

definition agentdef_params :: "string \<Rightarrow> AgentDefinitionParams" where
  "agentdef_params k = \<lparr> ad_sessionKey = k, ad_agentId = ''moltbot'', ad_name = None,
      ad_description = None, ad_tools = None, ad_systemPrompt = None, ad_parentAgentId = None \<rparr>"

definition demo_event :: "string \<Rightarrow> TrajectoryEventType \<Rightarrow> TrajectoryEvent" where
  "demo_event rid ty =
     \<lparr> event_id = ''e'', run_id = JStr rid, agent_id = ''moltbot'', parent_agent_id = None,
       invocation_id = rid @ ''-t'', task_id = JStr ''t'', event_type = ty,
       payload = ToolCallPayload ''search'' (JObj []) JUndefined None None, created_at = 0 \<rparr>"

text \<open>A fresh process with a client, at time 1000.\<close>

definition fresh :: state where
  "fresh = initial_state 1000 demo_ids True"

text \<open>A full buffer but for one place, with the flush timer running.\<close>

definition nearly_full :: state where
  "nearly_full = fresh\<lparr> eventBuffer := replicate 99 (demo_event ''7'' tool_call),
                         flushTimer := Some 1200 \<rparr>"

text \<open>One trajectory with 99 tool calls between its start and its end.\<close>

definition long_trace :: "operation list" where
  "long_trace = OpStartTrajectory (demo_start ''s1'')
      # replicate 99 (OpLogToolCall (tool_params ''s1''))
      @ [OpEndTrajectory (demo_end ''s1'')]"

text \<open>A trajectory in which the text \<open>abc\<close> has been streamed and has settled.\<close>

definition settled_trace :: "operation list" where
  "settled_trace =
     [OpStartEventListener, OpStartTrajectory (demo_start ''s1''),
      OpAgentEvent (text_signal ''r1'' ''s1'' ''abc''), ClockAdvances 100,
      DebounceTimerFires ''s1'']"

text \<open>A trajectory that ends while the text \<open>hello\<close> is still being debounced.\<close>

definition unflushed_trace :: "operation list" where
  "unflushed_trace =
     [OpStartEventListener, OpStartTrajectory (demo_start ''s1''),
      OpAgentEvent (text_signal ''r1'' ''s1'' ''hello''),
      OpEndTrajectory (demo_end ''s1'')]"

text \<open>A run whose lifecycle \<open>end\<close> signal arrives after its trajectory has ended.\<close>

definition stale_entry_trace :: "operation list" where
  "stale_entry_trace =
     [OpStartEventListener, OpStartTrajectory (demo_start ''s1''),
      OpAgentEvent (text_signal ''r1'' ''s1'' ''hello''),
      OpEndTrajectory (demo_end ''s1''),
      OpAgentEvent (lifecycle_signal ''r1'' (Some ''s1'') ''end'')]"

text \<open>Session \<open>s1\<close> has an active trajectory; the same, with the listener subscribed.\<close>

definition started :: state where
  "started = snd (startTrajectory (demo_start ''s1'') fresh)"

definition listening :: state where
  "listening = run [OpStartEventListener, OpStartTrajectory (demo_start ''s1'')] fresh"


definition is_task_end :: "TrajectoryEvent \<Rightarrow> bool" where
  "is_task_end e = (event_type e = task_end)"

section \<open>Decimal numerals are injective\<close>

lemma digit_char_inj: "a < 10 \<Longrightarrow> b < 10 \<Longrightarrow> digit_char a = digit_char b \<Longrightarrow> a = b"
  unfolding digit_char_def
  by (simp add: char_of_eq_iff take_bit_eq_mod)

lemma String_of_nat_nonempty: "String_of_nat n \<noteq> []"
  by (subst String_of_nat.simps) simp

lemma String_of_nat_length: "10 \<le> n \<Longrightarrow> 2 \<le> length (String_of_nat n)"
  by (subst String_of_nat.simps)
     (simp add: Suc_le_eq String_of_nat_nonempty)

lemma String_of_nat_inj: "String_of_nat n = String_of_nat m \<Longrightarrow> n = m"
proof (induction n arbitrary: m rule: String_of_nat.induct)
  case (1 n)
  show ?case
  proof (cases "n < 10")
    case True
    show ?thesis
    proof (cases "m < 10")
      case m: True
      from "1.prems" True m have "digit_char n = digit_char m"
        by (simp add: String_of_nat.simps [of n] String_of_nat.simps [of m])
      then show ?thesis using digit_char_inj True m by blast
    next
      case False
      then have "2 \<le> length (String_of_nat m)" by (simp add: String_of_nat_length)
      moreover have "length (String_of_nat n) = 1"
        using True by (simp add: String_of_nat.simps [of n])
      ultimately show ?thesis using "1.prems" by simp
    qed
  next
    case False
    show ?thesis
    proof (cases "m < 10")
      case True
      from False have "2 \<le> length (String_of_nat n)" by (simp add: String_of_nat_length)
      moreover have "length (String_of_nat m) = 1"
        using True by (simp add: String_of_nat.simps [of m])
      ultimately show ?thesis using "1.prems" by simp
    next
      case m: False
      from "1.prems" False m
      have e: "String_of_nat (n div 10) = String_of_nat (m div 10)"
          "digit_char (n mod 10) = digit_char (m mod 10)"
        by (simp_all add: String_of_nat.simps [of n] String_of_nat.simps [of m])
      from "1.IH" [OF False e(1)] have "n div 10 = m div 10" .
      moreover from e(2) have "n mod 10 = m mod 10"
        using digit_char_inj [of "n mod 10" "m mod 10"] by simp
      ultimately show ?thesis by (metis div_mult_mod_eq)
    qed
  qed
qed

lemma String_of_nat_no_minus: "hd (String_of_nat n) \<noteq> CHR ''-''"
proof (induction n rule: String_of_nat.induct)
  case (1 n)
  show ?case
  proof (cases "n < 10")
    case True
    have "digit_char n \<noteq> CHR ''-''"
      using True unfolding digit_char_def
      by (auto simp add: char_of_eq_iff take_bit_eq_mod dest!: arg_cong [where f = "of_char :: char \<Rightarrow> nat"])
    then show ?thesis using True by (simp add: String_of_nat.simps [of n])
  next
    case False
    then show ?thesis
      using "1.IH" String_of_nat_nonempty [of "n div 10"]
      by (simp add: String_of_nat.simps [of n])
  qed
qed

lemma String_of_number_inj: "String_of_number i = String_of_number j \<Longrightarrow> i = j"
  unfolding String_of_number_def
  using String_of_nat_no_minus String_of_nat_nonempty
  by (auto split: if_splits dest!: String_of_nat_inj)
     (metis list.sel(1))+

section \<open>The buffer and its flush\<close>

lemma flushBuffer_eq:
  "flushBuffer s =
     (if eventBuffer s = [] then (Resolved, s\<lparr> flushTimer := None \<rparr>)
      else if marloClient s
        then (AwaitingIngest (eventBuffer s),
              s\<lparr> flushTimer := None, eventBuffer := [], ingestCalls := ingestCalls s @ [eventBuffer s] \<rparr>)
        else (Resolved, s\<lparr> flushTimer := None, eventBuffer := [] \<rparr>))"
  by (simp add: flushBuffer_def Let_def)

lemma bufferEvent_eq:
  "bufferEvent e s =
     (if length (eventBuffer s) + 1 < 100
      then s\<lparr> eventBuffer := eventBuffer s @ [e],
              flushTimer := Some (case flushTimer s of None \<Rightarrow> clock s + 5000 | Some due \<Rightarrow> due) \<rparr>
      else if marloClient s
        then s\<lparr> eventBuffer := [], flushTimer := None,
                ingestCalls := ingestCalls s @ [eventBuffer s @ [e]] \<rparr>
        else s\<lparr> eventBuffer := [], flushTimer := None \<rparr>)"
  by (auto simp add: bufferEvent_def flushBuffer_eq Let_def BUFFER_SETTINGS_def split: option.splits)

lemma flushBuffer_empties: "eventBuffer (snd (flushBuffer s)) = []"
  by (simp add: flushBuffer_eq)

lemma all_events_flushBuffer:
  "marloClient s \<Longrightarrow> all_events (snd (flushBuffer s)) = all_events s"
  by (simp add: flushBuffer_eq all_events_def)

lemma all_events_bufferEvent:
  "marloClient s \<Longrightarrow> all_events (bufferEvent e s) = all_events s @ [e]"
  by (simp add: bufferEvent_eq all_events_def)

lemma bufferEvent_keeps:
  "marloClient (bufferEvent e s) = marloClient s"
  "activeTrajectories (bufferEvent e s) = activeTrajectories s"
  "runIdCounter (bufferEvent e s) = runIdCounter s"
  "lastLLMTextBySession (bufferEvent e s) = lastLLMTextBySession s"
  "llmDebounceTimers (bufferEvent e s) = llmDebounceTimers s"
  "llmPendingData (bufferEvent e s) = llmPendingData s"
  "runIdToSession (bufferEvent e s) = runIdToSession s"
  "clock (bufferEvent e s) = clock s"
  "unsubscribe (bufferEvent e s) = unsubscribe s"
  by (simp_all add: bufferEvent_eq)

lemma flushBuffer_keeps:
  "marloClient (snd (flushBuffer s)) = marloClient s"
  "activeTrajectories (snd (flushBuffer s)) = activeTrajectories s"
  "runIdCounter (snd (flushBuffer s)) = runIdCounter s"
  "lastLLMTextBySession (snd (flushBuffer s)) = lastLLMTextBySession s"
  "llmDebounceTimers (snd (flushBuffer s)) = llmDebounceTimers s"
  "llmPendingData (snd (flushBuffer s)) = llmPendingData s"
  "runIdToSession (snd (flushBuffer s)) = runIdToSession s"
  "clock (snd (flushBuffer s)) = clock s"
  "unsubscribe (snd (flushBuffer s)) = unsubscribe s"
  by (simp_all add: flushBuffer_eq)

lemma all_events_uuidsDrawn: "all_events (s\<lparr> uuidsDrawn := n \<rparr>) = all_events s"
  by (simp add: all_events_def)

lemma all_events_activeTrajectories:
  "all_events (s\<lparr> activeTrajectories := m \<rparr>) = all_events s"
  by (simp add: all_events_def)

lemma all_events_listener_upd:
  "all_events (s\<lparr> toolStartTimes := a \<rparr>) = all_events s"
  "all_events (s\<lparr> toolInputsById := b \<rparr>) = all_events s"
  "all_events (s\<lparr> runIdToSession := c \<rparr>) = all_events s"
  "all_events (s\<lparr> lastLLMTextBySession := d \<rparr>) = all_events s"
  "all_events (s\<lparr> llmDebounceTimers := e \<rparr>) = all_events s"
  "all_events (s\<lparr> llmPendingData := f \<rparr>) = all_events s"
  "all_events (s\<lparr> unsubscribe := g \<rparr>) = all_events s"
  "all_events (s\<lparr> clock := h \<rparr>) = all_events s"
  "all_events (s\<lparr> warnings := i \<rparr>) = all_events s"
  by (simp_all add: all_events_def)

lemma bufferEvent_task_ends:
  "\<not> is_task_end e \<Longrightarrow>
     length (filter is_task_end (all_events (bufferEvent e s)))
       \<le> length (filter is_task_end (all_events s))"
  by (simp add: bufferEvent_eq all_events_def)

section \<open>The functions of trajectory.ts, unfolded\<close>

lemma createEvent_fields:
  "run_id (fst (createEvent t ty pl s)) = JStr (runId t)"
  "event_type (fst (createEvent t ty pl s)) = ty"
  "payload (fst (createEvent t ty pl s)) = pl"
  by (simp_all add: createEvent_def generateEventId_def randomUUID_def)

lemma logLLMCall_eq:
  "logLLMCall p s =
     (case activeTrajectories s (lc_sessionKey p) of
        None \<Rightarrow> s
      | Some t \<Rightarrow>
          bufferEvent (fst (createEvent t llm_call
              (LLMCallPayload (lc_messages p) (lc_model p) (lc_provider p) (lc_response p)
                 (case lc_usage p of
                    None \<Rightarrow> None
                  | Some u \<Rightarrow>
                      Some \<lparr> input_tokens = inputTokens u, output_tokens = outputTokens u,
                             reasoning_tokens = reasoningTokens u,
                             total_tokens = nullish_zero (inputTokens u)
                               + nullish_zero (outputTokens u)
                               + nullish_zero (reasoningTokens u) \<rparr>)
                 (lc_reasoning p) (lc_error p)) s))
            (s\<lparr> uuidsDrawn := Suc (uuidsDrawn s) \<rparr>))"
  by (simp add: logLLMCall_def createEvent_def generateEventId_def randomUUID_def
      split: option.splits)

lemma logToolCall_eq:
  "logToolCall p s =
     (case activeTrajectories s (tc_sessionKey p) of
        None \<Rightarrow> s
      | Some t \<Rightarrow>
          bufferEvent (fst (createEvent t tool_call
              (ToolCallPayload (tc_toolName p) (tc_toolInput p) (tc_toolOutput p) (tc_error p)
                 (tc_durationMs p)) s))
            (s\<lparr> uuidsDrawn := Suc (uuidsDrawn s) \<rparr>))"
  by (simp add: logToolCall_def createEvent_def generateEventId_def randomUUID_def
      split: option.splits)

lemma endTrajectory_eq:
  "endTrajectory q s =
     (case activeTrajectories s (en_sessionKey q) of
        None \<Rightarrow> s
      | Some t \<Rightarrow>
          snd (flushBuffer
            ((bufferEvent (fst (createEvent t task_end
                (TaskEndPayload (en_status q) (en_finalAnswer q) (en_error q) (en_metadata q)) s))
               (s\<lparr> uuidsDrawn := Suc (uuidsDrawn s) \<rparr>))
             \<lparr> activeTrajectories :=
                 (activeTrajectories s)(en_sessionKey q := None) \<rparr>)))"
  by (simp add: endTrajectory_def createEvent_def generateEventId_def randomUUID_def
        bufferEvent_keeps Let_def split: option.splits)

lemma all_events_endTrajectory:
  assumes "marloClient s" and "activeTrajectories s (en_sessionKey q) = Some t"
  shows "all_events (endTrajectory q s) = all_events s @ [fst (createEvent t task_end
           (TaskEndPayload (en_status q) (en_finalAnswer q) (en_error q) (en_metadata q)) s)]"
    and "eventBuffer (endTrajectory q s) = []"
    and "marloClient (endTrajectory q s)"
    and "activeTrajectories (endTrajectory q s) = (activeTrajectories s)(en_sessionKey q := None)"
  using assms
  by (simp_all add: endTrajectory_eq all_events_flushBuffer bufferEvent_keeps
        all_events_activeTrajectories all_events_bufferEvent all_events_uuidsDrawn
        flushBuffer_keeps flushBuffer_empties)

lemma startTrajectory_trajectory:
  "fst (startTrajectory p s) =
     \<lparr> runId = String_of_number (runIdCounter s), sessionKey = st_sessionKey p,
       taskId = uuids s (uuidsDrawn s),
       agentId = (case st_agentId p of Some a \<Rightarrow> a | None \<Rightarrow> MOLTBOT_AGENT_ID),
       startedAt = clock s, events = [] \<rparr>"
  by (simp add: startTrajectory_def generateRunId_def generateTaskId_def randomUUID_def
        createEvent_def generateEventId_def Let_def)

lemma startTrajectory_state:
  "marloClient (snd (startTrajectory p s)) = marloClient s"
  "activeTrajectories (snd (startTrajectory p s)) =
     (activeTrajectories s)(st_sessionKey p \<mapsto> fst (startTrajectory p s))"
  "runIdCounter (snd (startTrajectory p s)) = runIdCounter s + 1"
  by (simp_all add: startTrajectory_def generateRunId_def generateTaskId_def randomUUID_def
        createEvent_def generateEventId_def Let_def bufferEvent_keeps)

lemma startTrajectory_emits:
  assumes "marloClient s"
  shows "\<exists>e. all_events (snd (startTrajectory p s)) = all_events s @ [e]
           \<and> event_type e = task_start
           \<and> run_id e = JStr (String_of_number (runIdCounter s))"
  using assms
  by (simp add: startTrajectory_def generateRunId_def generateTaskId_def randomUUID_def
        createEvent_def generateEventId_def Let_def all_events_bufferEvent)
     (simp add: all_events_def)

lemma startTrajectory_task_ends:
  "length (filter is_task_end (all_events (snd (startTrajectory p s))))
     \<le> length (filter is_task_end (all_events s))"
  unfolding startTrajectory_def generateRunId_def generateTaskId_def randomUUID_def
    createEvent_def generateEventId_def Let_def
  by (simp, rule order_trans [OF bufferEvent_task_ends])
     (simp_all add: is_task_end_def all_events_def)

lemma run_append: "run (xs @ ys) s = run ys (run xs s)"
  by (induction xs arbitrary: s) simp_all

section \<open>Steps that add no task boundary\<close>

lemma benign_refl: "benign s s"
  by (simp add: benign_def)

lemma benignD:
  "benign s s' \<Longrightarrow> marloClient s' = marloClient s"
  "benign s s' \<Longrightarrow> activeTrajectories s' = activeTrajectories s"
  "benign s s' \<Longrightarrow> runIdCounter s' = runIdCounter s"
  by (simp_all add: benign_def)

lemma benign_trans:
  assumes "benign s s1" and "benign s1 s2"
  shows "benign s s2"
proof -
  from assms(1) obtain n1 where n1: "all_events s1 = all_events s @ n1"
    "\<forall>e \<in> set n1. \<not> boundary e
       \<and> (\<exists>k t. activeTrajectories s k = Some t \<and> run_id e = JStr (runId t))"
    by (auto simp add: benign_def)
  from assms(2) obtain n2 where n2: "all_events s2 = all_events s1 @ n2"
    "\<forall>e \<in> set n2. \<not> boundary e
       \<and> (\<exists>k t. activeTrajectories s1 k = Some t \<and> run_id e = JStr (runId t))"
    by (auto simp add: benign_def)
  have "all_events s2 = all_events s @ (n1 @ n2)"
    using n1(1) n2(1) by simp
  moreover have "\<forall>e \<in> set (n1 @ n2). \<not> boundary e
       \<and> (\<exists>k t. activeTrajectories s k = Some t \<and> run_id e = JStr (runId t))"
    using n1(2) n2(2) benignD(2) [OF assms(1)] by auto
  ultimately show ?thesis
    unfolding benign_def
    using benignD [OF assms(1)] benignD [OF assms(2)] by metis
qed

lemma benign_upd:
  "benign s (s1\<lparr> toolStartTimes := a \<rparr>) = benign s s1"
  "benign s (s1\<lparr> toolInputsById := b \<rparr>) = benign s s1"
  "benign s (s1\<lparr> runIdToSession := c \<rparr>) = benign s s1"
  "benign s (s1\<lparr> lastLLMTextBySession := d \<rparr>) = benign s s1"
  "benign s (s1\<lparr> llmDebounceTimers := e \<rparr>) = benign s s1"
  "benign s (s1\<lparr> llmPendingData := f \<rparr>) = benign s s1"
  "benign s (s1\<lparr> unsubscribe := g \<rparr>) = benign s s1"
  "benign s (s1\<lparr> clock := h \<rparr>) = benign s s1"
  "benign s (s1\<lparr> warnings := i \<rparr>) = benign s s1"
  by (simp_all add: benign_def all_events_def)

lemma benign_flushBuffer: "marloClient s \<Longrightarrow> benign s (snd (flushBuffer s))"
  by (simp add: benign_def all_events_flushBuffer flushBuffer_keeps)

lemma benign_bufferEvent:
  assumes "marloClient s" and "activeTrajectories s k = Some t"
    and "run_id e = JStr (runId t)" and "\<not> boundary e"
  shows "benign s (bufferEvent e (s\<lparr> uuidsDrawn := n \<rparr>))"
  unfolding benign_def
  using assms
  by (auto simp add: all_events_bufferEvent bufferEvent_keeps all_events_uuidsDrawn)

lemma benign_logLLMCall: "marloClient s \<Longrightarrow> benign s (logLLMCall p s)"
  by (auto simp add: logLLMCall_eq benign_refl createEvent_fields boundary_def
      split: option.splits intro!: benign_bufferEvent)

lemma benign_logToolCall: "marloClient s \<Longrightarrow> benign s (logToolCall p s)"
  by (auto simp add: logToolCall_eq benign_refl createEvent_fields boundary_def
      split: option.splits intro!: benign_bufferEvent)

lemma logAgentDefinition_eq:
  "logAgentDefinition p s =
     (case activeTrajectories s (ad_sessionKey p) of
        None \<Rightarrow> s
      | Some t \<Rightarrow>
          bufferEvent (fst (createEvent t agent_definition
              (AgentDefinitionPayload (ad_agentId p) (ad_name p) (ad_description p) (ad_tools p)
                 (ad_systemPrompt p) (ad_parentAgentId p)) s))
            (s\<lparr> uuidsDrawn := Suc (uuidsDrawn s) \<rparr>))"
  by (simp add: logAgentDefinition_def createEvent_def generateEventId_def randomUUID_def
      split: option.splits)

lemma benign_logAgentDefinition: "marloClient s \<Longrightarrow> benign s (logAgentDefinition p s)"
  by (auto simp add: logAgentDefinition_eq benign_refl createEvent_fields boundary_def
      split: option.splits intro!: benign_bufferEvent)

lemma benign_then_logToolCall:
  "marloClient s \<Longrightarrow> benign s s1 \<Longrightarrow> benign s (logToolCall p s1)"
  using benign_trans [OF _ benign_logToolCall] benignD(1) by metis

lemma benign_then_logLLMCall:
  "marloClient s \<Longrightarrow> benign s s1 \<Longrightarrow> benign s (logLLMCall p s1)"
  using benign_trans [OF _ benign_logLLMCall] benignD(1) by metis

lemma benign_handleToolEvent:
  "marloClient s \<Longrightarrow> benign s s1 \<Longrightarrow> benign s (handleToolEvent k d s1)"
  unfolding handleToolEvent_def Let_def
  by (simp add: benign_upd benign_then_logToolCall)

lemma benign_llmDebounceCallback:
  "marloClient s \<Longrightarrow> benign s s1 \<Longrightarrow> benign s (llmDebounceCallback k s1)"
  unfolding llmDebounceCallback_def Let_def
  by (simp add: benign_upd benign_then_logLLMCall split: option.splits)

lemma benign_flushPendingLLMEvents:
  "marloClient s \<Longrightarrow> benign s s1 \<Longrightarrow> benign s (flushPendingLLMEvents k s1)"
  unfolding flushPendingLLMEvents_def Let_def
  by (simp add: benign_upd benign_then_logLLMCall split: option.splits)

lemma benign_handleAssistantEvent:
  "marloClient s \<Longrightarrow> benign s s1 \<Longrightarrow> benign s (handleAssistantEvent k d s1)"
  unfolding handleAssistantEvent_def Let_def
  by (simp add: benign_upd benign_then_logLLMCall)

lemma benign_handleLifecycleEvent:
  "benign s s1 \<Longrightarrow> benign s (handleLifecycleEvent r k d s1)"
  unfolding handleLifecycleEvent_def
  by (simp add: benign_upd)

lemma benign_handleAgentEvent:
  "marloClient s \<Longrightarrow> benign s s1 \<Longrightarrow> benign s (handleAgentEvent ev s1)"
  unfolding handleAgentEvent_def Let_def
  by (simp add: benign_upd benign_handleToolEvent benign_handleAssistantEvent
        benign_handleLifecycleEvent)

lemma benign_stopEventListener: "benign s s1 \<Longrightarrow> benign s (stopEventListener s1)"
  unfolding stopEventListener_def
  by (simp add: benign_upd)

lemma benign_startEventListener: "benign s s1 \<Longrightarrow> benign s (startEventListener s1)"
  unfolding startEventListener_def
  by (simp add: benign_upd)

lemma benign_flushBuffer_resume: "benign s s1 \<Longrightarrow> benign s (snd (flushBuffer_resume r s1))"
  unfolding flushBuffer_resume_def
  by (simp add: benign_upd split: sum.splits)

text \<open>Every operation other than \<open>startTrajectory\<close> and \<open>endTrajectory\<close> is benign.\<close>

lemma benign_step:
  assumes "marloClient s"
    and "\<And>p. op \<noteq> OpStartTrajectory p" and "\<And>q. op \<noteq> OpEndTrajectory q"
  shows "benign s (step op s)"
proof -
  note c = assms(1)
  note r = benign_refl [of s]
  show ?thesis
  proof (cases op)
    case (OpStartTrajectory p)
    then show ?thesis using assms(2) by simp
  next
    case (OpEndTrajectory q)
    then show ?thesis using assms(3) by simp
  next
    case (OpLogLLMCall p)
    then show ?thesis using benign_logLLMCall [OF c] by simp
  next
    case (OpLogToolCall p)
    then show ?thesis using benign_logToolCall [OF c] by simp
  next
    case (OpLogAgentDefinition p)
    then show ?thesis using benign_logAgentDefinition [OF c] by simp
  next
    case (OpAgentEvent ev)
    then show ?thesis using benign_handleAgentEvent [OF c r] r by simp
  next
    case (OpFlushPendingLLMEvents sk)
    then show ?thesis using benign_flushPendingLLMEvents [OF c r] by simp
  next
    case OpFlushBuffer
    then show ?thesis using benign_flushBuffer [OF c] by simp
  next
    case OpStartEventListener
    then show ?thesis using benign_startEventListener [OF r] by simp
  next
    case OpStopEventListener
    then show ?thesis using benign_stopEventListener [OF r] by simp
  next
    case FlushTimerFires
    then show ?thesis using benign_flushBuffer [OF c] r by (simp split: option.splits)
  next
    case (DebounceTimerFires sk)
    then show ?thesis using benign_llmDebounceCallback [OF c r] r by (simp split: option.splits)
  next
    case (IngestSettles outcome)
    then show ?thesis using benign_flushBuffer_resume [OF r] by simp
  next
    case (ClockAdvances d)
    then show ?thesis by (simp add: benign_upd benign_refl)
  qed
qed

section \<open>Run identifiers in use have been allocated\<close>

lemma ids_allocated_initial: "ids_allocated (initial_state now ids client)"
  by (simp add: ids_allocated_def initial_state_def all_events_def)

lemma ids_allocated_benign:
  assumes "ids_allocated s" and "benign s s'"
  shows "ids_allocated s'"
proof -
  from assms(2) obtain new where n: "all_events s' = all_events s @ new"
    "\<forall>e \<in> set new. \<exists>k t. activeTrajectories s k = Some t \<and> run_id e = JStr (runId t)"
    by (auto simp add: benign_def)
  have "\<forall>e \<in> set new. \<exists>n. n < runIdCounter s \<and> run_id e = JStr (String_of_number n)"
    using n(2) assms(1) unfolding ids_allocated_def by metis
  then show ?thesis
    using assms(1) n(1) benignD(2,3) [OF assms(2)]
    unfolding ids_allocated_def by auto
qed

lemma ids_allocated_start:
  assumes "marloClient s" and "ids_allocated s"
  shows "ids_allocated (snd (startTrajectory p s))"
proof -
  obtain e where e: "all_events (snd (startTrajectory p s)) = all_events s @ [e]"
      "run_id e = JStr (String_of_number (runIdCounter s))"
    using startTrajectory_emits [OF assms(1)] by blast
  have "\<forall>e' \<in> set (all_events (snd (startTrajectory p s))).
          \<exists>n. n < runIdCounter s + 1 \<and> run_id e' = JStr (String_of_number n)"
  proof
    fix e' assume "e' \<in> set (all_events (snd (startTrajectory p s)))"
    then consider "e' \<in> set (all_events s)" | "e' = e" using e(1) by auto
    then show "\<exists>n. n < runIdCounter s + 1 \<and> run_id e' = JStr (String_of_number n)"
    proof cases
      case 1
      then obtain n where "n < runIdCounter s" "run_id e' = JStr (String_of_number n)"
        using assms(2) unfolding ids_allocated_def by blast
      then show ?thesis by (intro exI [of _ n]) simp
    next
      case 2
      then show ?thesis using e(2) by (intro exI [of _ "runIdCounter s"]) simp
    qed
  qed
  moreover have "\<forall>k t. activeTrajectories (snd (startTrajectory p s)) k = Some t \<longrightarrow>
          (\<exists>n. n < runIdCounter s + 1 \<and> runId t = String_of_number n)"
  proof (intro allI impI)
    fix k t assume a: "activeTrajectories (snd (startTrajectory p s)) k = Some t"
    show "\<exists>n. n < runIdCounter s + 1 \<and> runId t = String_of_number n"
    proof (cases "k = st_sessionKey p")
      case True
      then have "runId t = String_of_number (runIdCounter s)"
        using a by (auto simp add: startTrajectory_state startTrajectory_trajectory)
      then show ?thesis by (intro exI [of _ "runIdCounter s"]) simp
    next
      case False
      then have "activeTrajectories s k = Some t"
        using a by (simp add: startTrajectory_state)
      then obtain n where "n < runIdCounter s" "runId t = String_of_number n"
        using assms(2) unfolding ids_allocated_def by blast
      then show ?thesis by (intro exI [of _ n]) simp
    qed
  qed
  ultimately show ?thesis
    unfolding ids_allocated_def by (simp add: startTrajectory_state)
qed

lemma runIdCounter_endTrajectory: "runIdCounter (endTrajectory q s) = runIdCounter s"
  by (simp add: endTrajectory_eq flushBuffer_keeps bufferEvent_keeps split: option.splits)

lemma marloClient_endTrajectory: "marloClient (endTrajectory q s) = marloClient s"
  by (simp add: endTrajectory_eq flushBuffer_keeps bufferEvent_keeps split: option.splits)

lemma ids_allocated_end:
  assumes "marloClient s" and "ids_allocated s"
  shows "ids_allocated (endTrajectory q s)"
proof (cases "activeTrajectories s (en_sessionKey q)")
  case None
  then show ?thesis using assms(2) by (simp add: endTrajectory_eq)
next
  case (Some t)
  note f = all_events_endTrajectory [OF assms(1) Some]
  obtain n where n: "n < runIdCounter s" "runId t = String_of_number n"
    using assms(2) Some unfolding ids_allocated_def by blast
  show ?thesis
    unfolding ids_allocated_def f(1) f(4) runIdCounter_endTrajectory
    using assms(2) n
    by (auto simp add: ids_allocated_def createEvent_fields split: if_splits)
qed

lemma ids_allocated_step:
  assumes "marloClient s" and "ids_allocated s"
  shows "marloClient (step op s) \<and> ids_allocated (step op s)"
proof (cases op)
  case (OpStartTrajectory p)
  then show ?thesis
    using ids_allocated_start [OF assms] assms(1) by (simp add: startTrajectory_state)
next
  case (OpEndTrajectory q)
  then show ?thesis
    using ids_allocated_end [OF assms] assms(1) by (simp add: marloClient_endTrajectory)
qed (use benign_step [OF assms(1), of op] ids_allocated_benign [OF assms(2)] assms(1) benignD(1)
     in auto)

lemma ids_allocated_run:
  "marloClient s \<Longrightarrow> ids_allocated s \<Longrightarrow> marloClient (run ops s) \<and> ids_allocated (run ops s)"
  by (induction ops arbitrary: s) (simp_all add: ids_allocated_step)

lemma ids_allocated_fresh:
  assumes "ids_allocated s"
  shows "\<forall>e \<in> set (all_events s). run_id e \<noteq> JStr (String_of_number (runIdCounter s))"
    and "\<forall>k t. activeTrajectories s k = Some t \<longrightarrow> runId t \<noteq> String_of_number (runIdCounter s)"
  using assms unfolding ids_allocated_def
  by (auto dest!: String_of_number_inj) (metis String_of_number_inj less_irrefl)+

section \<open>A trajectory between its start and its end\<close>

lemma events_of_append: "events_of rid (xs @ ys) = events_of rid xs @ events_of rid ys"
  by (simp add: events_of_def)

lemma in_progress_benign:
  assumes "in_progress rid k s" and "benign s s'"
  shows "in_progress rid k s'"
proof -
  from assms(2) obtain new where
    n: "all_events s' = all_events s @ new" and b: "\<forall>e \<in> set new. \<not> boundary e"
    by (auto simp add: benign_def)
  from assms(1) obtain ts mid where
    e: "events_of rid (all_events s) = ts # mid" "event_type ts = task_start"
       "\<forall>e \<in> set mid. \<not> boundary e"
    by (auto simp add: in_progress_def)
  have "events_of rid (all_events s') = ts # (mid @ events_of rid new)"
    using n e(1) by (simp add: events_of_append)
  moreover have "\<forall>e \<in> set (mid @ events_of rid new). \<not> boundary e"
    using e(3) b by (auto simp add: events_of_def)
  ultimately have "\<exists>ts mid. events_of rid (all_events s') = ts # mid
      \<and> event_type ts = task_start \<and> (\<forall>e \<in> set mid. \<not> boundary e)"
    using e(2) by blast
  then show ?thesis
    using assms(1) benignD [OF assms(2)] unfolding in_progress_def by simp
qed

lemma in_progress_end_other:
  assumes "in_progress rid k s" and "en_sessionKey q \<noteq> k"
  shows "in_progress rid k (endTrajectory q s)"
proof (cases "activeTrajectories s (en_sessionKey q)")
  case None
  then show ?thesis using assms(1) by (simp add: endTrajectory_eq)
next
  case (Some t)
  have c: "marloClient s" using assms(1) by (simp add: in_progress_def)
  have r: "runId t \<noteq> rid" using assms Some by (auto simp add: in_progress_def)
  note f = all_events_endTrajectory [OF c Some]
  have "events_of rid (all_events (endTrajectory q s)) = events_of rid (all_events s)"
    using r by (simp add: f(1) events_of_append) (simp add: events_of_def createEvent_fields)
  then show ?thesis
    using assms unfolding in_progress_def f(4) runIdCounter_endTrajectory by (simp add: f(3))
qed

lemma in_progress_start_other:
  assumes "in_progress rid k s" and "st_sessionKey p \<noteq> k"
  shows "in_progress rid k (snd (startTrajectory p s))"
proof -
  have c: "marloClient s" using assms(1) by (simp add: in_progress_def)
  obtain n where n: "n < runIdCounter s" "rid = String_of_number n"
    using assms(1) by (auto simp add: in_progress_def)
  have d: "String_of_number (runIdCounter s) \<noteq> rid"
    using n String_of_number_inj [of "runIdCounter s" n] by auto
  obtain e where e: "all_events (snd (startTrajectory p s)) = all_events s @ [e]"
      "run_id e = JStr (String_of_number (runIdCounter s))"
    using startTrajectory_emits [OF c] by blast
  have "events_of rid (all_events (snd (startTrajectory p s))) = events_of rid (all_events s)"
    using e d by (simp add: events_of_append) (simp add: events_of_def)
  moreover have "n < runIdCounter s + 1" using n(1) by simp
  ultimately show ?thesis
    using assms d n(2) unfolding in_progress_def
    by (auto simp add: startTrajectory_state startTrajectory_trajectory)
qed

lemma in_progress_step:
  assumes "in_progress rid k s" and "middle_op k op"
  shows "in_progress rid k (step op s)"
proof (cases "(\<exists>p. op = OpStartTrajectory p) \<or> (\<exists>q. op = OpEndTrajectory q)")
  case True
  then show ?thesis
    using assms by (auto simp add: in_progress_start_other in_progress_end_other)
next
  case False
  have "marloClient s" using assms(1) by (simp add: in_progress_def)
  then have "benign s (step op s)"
    using benign_step [of s op] False by blast
  then show ?thesis by (rule in_progress_benign [OF assms(1)])
qed

lemma in_progress_run:
  "in_progress rid k s \<Longrightarrow> \<forall>op \<in> set ops. middle_op k op \<Longrightarrow> in_progress rid k (run ops s)"
  by (induction ops arbitrary: s) (simp_all add: in_progress_step)

lemma in_progress_start:
  assumes "marloClient s" and "ids_allocated s"
  shows "in_progress (String_of_number (runIdCounter s)) (st_sessionKey p)
           (snd (startTrajectory p s))"
proof -
  note fr = ids_allocated_fresh [OF assms(2)]
  obtain e where e: "all_events (snd (startTrajectory p s)) = all_events s @ [e]"
      "event_type e = task_start" "run_id e = JStr (String_of_number (runIdCounter s))"
    using startTrajectory_emits [OF assms(1)] by blast
  have "events_of (String_of_number (runIdCounter s)) (all_events s) = []"
    using fr(1) by (simp add: events_of_def)
  then have "events_of (String_of_number (runIdCounter s))
               (all_events (snd (startTrajectory p s))) = [e]"
    using e by (simp add: events_of_append) (simp add: events_of_def)
  moreover have "\<exists>n. n < runIdCounter s + 1
      \<and> String_of_number (runIdCounter s) = String_of_number n"
    by (intro exI [of _ "runIdCounter s"]) simp
  ultimately show ?thesis
    using assms(1) fr(2) e(2)
    by (simp add: in_progress_def startTrajectory_state startTrajectory_trajectory)
qed

lemma in_progress_end:
  assumes "in_progress rid k s" and "en_sessionKey q = k"
  shows "\<exists>ts mid te.
           events_of rid (concat (ingestCalls (endTrajectory q s))) = ts # mid @ [te]
           \<and> event_type ts = task_start \<and> event_type te = task_end
           \<and> (\<forall>e \<in> set mid. event_type e \<noteq> task_start \<and> event_type e \<noteq> task_end)
           \<and> eventBuffer (endTrajectory q s) = []
           \<and> ingestCalls (endTrajectory q s) \<noteq> []
           \<and> last (ingestCalls (endTrajectory q s)) \<noteq> []
           \<and> last (last (ingestCalls (endTrajectory q s))) = te"
proof -
  have c: "marloClient s" using assms(1) by (simp add: in_progress_def)
  obtain t where t: "activeTrajectories s (en_sessionKey q) = Some t" "runId t = rid"
    using assms by (auto simp add: in_progress_def)
  obtain ts mid where m: "events_of rid (all_events s) = ts # mid" "event_type ts = task_start"
      "\<forall>e \<in> set mid. \<not> boundary e"
    using assms(1) by (auto simp add: in_progress_def)
  define te where "te = fst (createEvent t task_end
    (TaskEndPayload (en_status q) (en_finalAnswer q) (en_error q) (en_metadata q)) s)"
  note f = all_events_endTrajectory [OF c t(1), folded te_def]
  have te: "event_type te = task_end" "run_id te = JStr rid"
    by (simp_all add: te_def createEvent_fields t(2))
  have cc: "concat (ingestCalls (endTrajectory q s)) = all_events s @ [te]"
    using f(1,2) by (simp add: all_events_def)
  have "events_of rid (concat (ingestCalls (endTrajectory q s))) = ts # mid @ [te]"
    using m(1) te(2) by (simp add: cc events_of_append) (simp add: events_of_def)
  moreover have "ingestCalls (endTrajectory q s) \<noteq> []
      \<and> last (ingestCalls (endTrajectory q s)) \<noteq> []
      \<and> last (last (ingestCalls (endTrajectory q s))) = te"
    using c t(1)
    by (simp add: endTrajectory_eq flushBuffer_eq bufferEvent_eq te_def)
  ultimately show ?thesis
    using m(2,3) te(1) f(2) by (auto simp add: boundary_def)
qed

text \<open>
  From any state with a client in which the identifiers in use have been allocated: the
  events of a trajectory, from its start to its end, are delimited.
\<close>

lemma trajectory_delimited_from:
  assumes "marloClient s" and "ids_allocated s"
    and "\<forall>op \<in> set ops. middle_op (st_sessionKey p) op"
    and "en_sessionKey q = st_sessionKey p"
  shows "\<exists>ts mid te.
           events_of (String_of_number (runIdCounter s))
             (concat (ingestCalls (run (OpStartTrajectory p # ops @ [OpEndTrajectory q]) s)))
             = ts # mid @ [te]
           \<and> event_type ts = task_start \<and> event_type te = task_end
           \<and> (\<forall>e \<in> set mid. event_type e \<noteq> task_start \<and> event_type e \<noteq> task_end)
           \<and> eventBuffer (run (OpStartTrajectory p # ops @ [OpEndTrajectory q]) s) = []
           \<and> ingestCalls (run (OpStartTrajectory p # ops @ [OpEndTrajectory q]) s) \<noteq> []
           \<and> last (ingestCalls (run (OpStartTrajectory p # ops @ [OpEndTrajectory q]) s)) \<noteq> []
           \<and> last (last (ingestCalls (run (OpStartTrajectory p # ops @ [OpEndTrajectory q]) s))) = te"
proof -
  have "in_progress (String_of_number (runIdCounter s)) (st_sessionKey p)
          (run ops (snd (startTrajectory p s)))"
    using in_progress_run [OF in_progress_start [OF assms(1,2)] assms(3)] .
  from in_progress_end [OF this assms(4)] show ?thesis
    by (simp add: run_append)
qed

section \<open>Runs on the sample inputs\<close>

lemma String_of_number_1000: "String_of_number 1000 = ''1000''"
  by code_simp

lemma String_of_number_1001: "String_of_number 1001 = ''1001''"
  by code_simp

lemma numeral_99: "(99::nat) = Suc 98"
  by simp

lemmas eval_defs =
  startTrajectory_def generateRunId_def generateTaskId_def randomUUID_def createEvent_def
  generateEventId_def bufferEvent_eq flushBuffer_eq endTrajectory_def logLLMCall_def
  logToolCall_def logAgentDefinition_def handleAgentEvent_def handleAssistantEvent_def
  handleLifecycleEvent_def handleToolEvent_def llmDebounceCallback_def
  flushPendingLLMEvents_def startEventListener_def stopEventListener_def truthy_string_def
  truthy_number_def hasActiveTrajectory_def fresh_def initial_state_def demo_start_def
  demo_end_def tool_params_def llm_params_def agentdef_params_def text_signal_def
  lifecycle_signal_def all_events_def LLM_DEBOUNCE_MS_def MOLTBOT_AGENT_ID_def Let_def

lemma run_tool_calls_below_threshold:
  "activeTrajectories s (tc_sessionKey p) \<noteq> None \<Longrightarrow> length (eventBuffer s) + n < 100 \<Longrightarrow>
     map event_type (eventBuffer (run (replicate n (OpLogToolCall p)) s))
       = map event_type (eventBuffer s) @ replicate n tool_call
     \<and> ingestCalls (run (replicate n (OpLogToolCall p)) s) = ingestCalls s
     \<and> activeTrajectories (run (replicate n (OpLogToolCall p)) s) = activeTrajectories s
     \<and> marloClient (run (replicate n (OpLogToolCall p)) s) = marloClient s"
proof (induction n arbitrary: s)
  case 0
  then show ?case by simp
next
  case (Suc n)
  from Suc.prems obtain t where t: "activeTrajectories s (tc_sessionKey p) = Some t" by auto
  let ?s1 = "logToolCall p s"
  have b: "length (eventBuffer s) + 1 < 100" using Suc.prems(2) by simp
  have s1: "map event_type (eventBuffer ?s1) = map event_type (eventBuffer s) @ [tool_call]"
      "ingestCalls ?s1 = ingestCalls s" "activeTrajectories ?s1 = activeTrajectories s"
      "marloClient ?s1 = marloClient s" "length (eventBuffer ?s1) = Suc (length (eventBuffer s))"
    using b by (simp_all add: logToolCall_eq t bufferEvent_eq createEvent_fields)
  have "activeTrajectories ?s1 (tc_sessionKey p) \<noteq> None" using t s1(3) by simp
  moreover have "length (eventBuffer ?s1) + n < 100" using Suc.prems(2) s1(5) by simp
  ultimately show ?case
    using Suc.IH [of ?s1] s1
    by (simp add: replicate_append_same [symmetric] del: replicate_Suc)
       (simp add: replicate_append_same)
qed

lemma started_facts:
  "map event_type (eventBuffer started) = [task_start]"
  "ingestCalls started = []"
  "activeTrajectories started ''s1'' \<noteq> None"
  "marloClient started"
  by (simp_all add: started_def eval_defs)

section \<open>Claims\<close>

subsection \<open>C1: one task_start and one task_end per trajectory, first and last\<close>

text \<open>
  C1 (as amended). In a process with a client, after any operations \<open>pre\<close> since the
  modules were loaded, take a \<open>startTrajectory\<close> for a session, then any operations other
  than a \<open>startTrajectory\<close> or an \<open>endTrajectory\<close> of that session (calls of
  \<open>logLLMCall\<close>, \<open>logToolCall\<close>, \<open>logAgentDefinition\<close>, signals, timers, flushes,
  other sessions' trajectories), then the \<open>endTrajectory\<close> of the session. The events of
  that trajectory among all the batches handed to the transport, in delivery order, are
  its \<open>task_start\<close>, then events that are neither \<open>task_start\<close> nor \<open>task_end\<close>, then
  its \<open>task_end\<close>; nothing is left in the buffer, and the \<open>task_end\<close> is the last event
  of the last batch.
\<close>

theorem trajectory_events_delimited:
  assumes "\<forall>op \<in> set ops. middle_op (st_sessionKey p) op"
    and "en_sessionKey q = st_sessionKey p"
  shows "\<exists>ts mid te.
           events_of (String_of_number (runIdCounter (run pre (initial_state now ids True))))
             (concat (ingestCalls (run (pre @ OpStartTrajectory p # ops @ [OpEndTrajectory q])
                (initial_state now ids True))))
             = ts # mid @ [te]
           \<and> event_type ts = task_start \<and> event_type te = task_end
           \<and> (\<forall>e \<in> set mid. event_type e \<noteq> task_start \<and> event_type e \<noteq> task_end)
           \<and> eventBuffer (run (pre @ OpStartTrajectory p # ops @ [OpEndTrajectory q])
                (initial_state now ids True)) = []
           \<and> ingestCalls (run (pre @ OpStartTrajectory p # ops @ [OpEndTrajectory q])
                (initial_state now ids True)) \<noteq> []
           \<and> last (ingestCalls (run (pre @ OpStartTrajectory p # ops @ [OpEndTrajectory q])
                (initial_state now ids True))) \<noteq> []
           \<and> last (last (ingestCalls (run (pre @ OpStartTrajectory p # ops @ [OpEndTrajectory q])
                (initial_state now ids True)))) = te"
proof -
  have "marloClient (initial_state now ids True)"
    by (simp add: initial_state_def)
  then have "marloClient (run pre (initial_state now ids True))
      \<and> ids_allocated (run pre (initial_state now ids True))"
    using ids_allocated_run ids_allocated_initial by blast
  then show ?thesis
    using trajectory_delimited_from [OF _ _ assms] by (simp add: run_append)
qed

theorem trajectory_events_delimited_witness:
  "middle_op (st_sessionKey (demo_start ''s1'')) (OpLogToolCall (tool_params ''s1''))
   \<and> middle_op (st_sessionKey (demo_start ''s1'')) (OpStartTrajectory (demo_start ''s2''))
   \<and> en_sessionKey (demo_end ''s1'') = st_sessionKey (demo_start ''s1'')
   \<and> (\<exists>ts mid te.
         events_of (String_of_number (runIdCounter (run [OpStartEventListener] (initial_state 1000 demo_ids True))))
           (concat (ingestCalls (run ([OpStartEventListener] @ OpStartTrajectory (demo_start ''s1'')
              # [OpLogToolCall (tool_params ''s1''), OpStartTrajectory (demo_start ''s2'')]
              @ [OpEndTrajectory (demo_end ''s1'')]) (initial_state 1000 demo_ids True))))
           = ts # mid @ [te]
         \<and> event_type ts = task_start \<and> event_type te = task_end
         \<and> (\<forall>e \<in> set mid. event_type e \<noteq> task_start \<and> event_type e \<noteq> task_end))
   \<and> map event_type (events_of ''1000'' (concat (ingestCalls (run [OpStartEventListener,
        OpStartTrajectory (demo_start ''s1''), OpLogToolCall (tool_params ''s1''),
        OpStartTrajectory (demo_start ''s2''), OpEndTrajectory (demo_end ''s1'')] fresh))))
       = [task_start, tool_call, task_end]
   \<and> map event_type (concat (ingestCalls (run [OpStartEventListener,
        OpStartTrajectory (demo_start ''s1''), OpLogToolCall (tool_params ''s1''),
        OpStartTrajectory (demo_start ''s2''), OpEndTrajectory (demo_end ''s1'')] fresh)))
       = [task_start, tool_call, task_start, task_end]"
proof -
  have h1: "\<forall>op \<in> set [OpLogToolCall (tool_params ''s1''), OpStartTrajectory (demo_start ''s2'')].
      middle_op (st_sessionKey (demo_start ''s1'')) op"
    by (simp add: demo_start_def)
  have h2: "en_sessionKey (demo_end ''s1'') = st_sessionKey (demo_start ''s1'')"
    by (simp add: demo_end_def demo_start_def)
  have g: "middle_op (st_sessionKey (demo_start ''s1'')) (OpLogToolCall (tool_params ''s1''))"
      "middle_op (st_sessionKey (demo_start ''s1'')) (OpStartTrajectory (demo_start ''s2''))"
    by (simp_all add: demo_start_def)
  have ev: "map event_type (events_of ''1000'' (concat (ingestCalls (run [OpStartEventListener,
        OpStartTrajectory (demo_start ''s1''), OpLogToolCall (tool_params ''s1''),
        OpStartTrajectory (demo_start ''s2''), OpEndTrajectory (demo_end ''s1'')] fresh))))
       = [task_start, tool_call, task_end]"
      "map event_type (concat (ingestCalls (run [OpStartEventListener,
        OpStartTrajectory (demo_start ''s1''), OpLogToolCall (tool_params ''s1''),
        OpStartTrajectory (demo_start ''s2''), OpEndTrajectory (demo_end ''s1'')] fresh)))
       = [task_start, tool_call, task_start, task_end]"
    by (simp_all add: eval_defs events_of_def String_of_number_1000 String_of_number_1001)
  from trajectory_events_delimited [OF h1 h2, of "[OpStartEventListener]" 1000 demo_ids] h2 g ev
  show ?thesis by blast
qed

text \<open>
  When the trajectory is short, its events do arrive in one batch: if only logging calls
  and signals happen between the start and the end, and the buffer had room for all of
  them (one event for the start, at most one per operation, below the maximum size of
  100), then \<open>endTrajectory\<close> hands over exactly one new batch, and the trajectory's
  events in that batch are the \<open>task_start\<close>, the events in between, and the
  \<open>task_end\<close>.
\<close>

lemma same_buffer_refl: "same_buffer s s"
  by (simp add: same_buffer_def)

lemma same_buffer_upd:
  "same_buffer s (s1\<lparr> toolStartTimes := a \<rparr>) = same_buffer s s1"
  "same_buffer s (s1\<lparr> toolInputsById := b \<rparr>) = same_buffer s s1"
  "same_buffer s (s1\<lparr> runIdToSession := c \<rparr>) = same_buffer s s1"
  "same_buffer s (s1\<lparr> lastLLMTextBySession := d \<rparr>) = same_buffer s s1"
  "same_buffer s (s1\<lparr> llmDebounceTimers := e \<rparr>) = same_buffer s s1"
  "same_buffer s (s1\<lparr> llmPendingData := f \<rparr>) = same_buffer s s1"
  "same_buffer s (s1\<lparr> clock := h \<rparr>) = same_buffer s s1"
  by (simp_all add: same_buffer_def)

lemma at_most_one_more_same: "same_buffer s s1 \<Longrightarrow> at_most_one_more s s1"
  by (simp add: same_buffer_def at_most_one_more_def)

lemma at_most_one_more_bufferEvent:
  "length (eventBuffer s) + 1 < 100 \<Longrightarrow> same_buffer s s1 \<Longrightarrow>
     at_most_one_more s (bufferEvent e (s1\<lparr> uuidsDrawn := n \<rparr>))"
  by (simp add: same_buffer_def at_most_one_more_def bufferEvent_eq)

lemma at_most_one_more_logLLMCall:
  "length (eventBuffer s) + 1 < 100 \<Longrightarrow> same_buffer s s1 \<Longrightarrow>
     at_most_one_more s (logLLMCall p s1)"
  by (simp add: logLLMCall_eq at_most_one_more_same at_most_one_more_bufferEvent
      split: option.splits)

lemma at_most_one_more_logToolCall:
  "length (eventBuffer s) + 1 < 100 \<Longrightarrow> same_buffer s s1 \<Longrightarrow>
     at_most_one_more s (logToolCall p s1)"
  by (simp add: logToolCall_eq at_most_one_more_same at_most_one_more_bufferEvent
      split: option.splits)

lemma at_most_one_more_logAgentDefinition:
  "length (eventBuffer s) + 1 < 100 \<Longrightarrow> same_buffer s s1 \<Longrightarrow>
     at_most_one_more s (logAgentDefinition p s1)"
  by (simp add: logAgentDefinition_eq at_most_one_more_same at_most_one_more_bufferEvent
      split: option.splits)

lemma at_most_one_more_handleToolEvent:
  "length (eventBuffer s) + 1 < 100 \<Longrightarrow> same_buffer s s1 \<Longrightarrow>
     at_most_one_more s (handleToolEvent k d s1)"
  unfolding handleToolEvent_def Let_def
  by (simp add: same_buffer_upd at_most_one_more_same at_most_one_more_logToolCall)

lemma at_most_one_more_handleAssistantEvent:
  "length (eventBuffer s) + 1 < 100 \<Longrightarrow> same_buffer s s1 \<Longrightarrow>
     at_most_one_more s (handleAssistantEvent k d s1)"
  unfolding handleAssistantEvent_def Let_def
  by (simp add: same_buffer_upd at_most_one_more_same at_most_one_more_logLLMCall)

lemma at_most_one_more_handleLifecycleEvent:
  "same_buffer s s1 \<Longrightarrow> at_most_one_more s (handleLifecycleEvent r k d s1)"
  unfolding handleLifecycleEvent_def
  by (simp add: same_buffer_upd at_most_one_more_same)

lemma at_most_one_more_handleAgentEvent:
  "length (eventBuffer s) + 1 < 100 \<Longrightarrow> same_buffer s s1 \<Longrightarrow>
     at_most_one_more s (handleAgentEvent ev s1)"
  unfolding handleAgentEvent_def Let_def
  by (simp add: same_buffer_upd at_most_one_more_same at_most_one_more_handleToolEvent
        at_most_one_more_handleAssistantEvent at_most_one_more_handleLifecycleEvent)


lemma quiet_step:
  assumes "log_or_signal op" and "length (eventBuffer s) + 1 < 100"
  shows "ingestCalls (step op s) = ingestCalls s
     \<and> length (eventBuffer (step op s)) \<le> length (eventBuffer s) + 1"
proof -
  note r = same_buffer_refl [of s]
  have "at_most_one_more s (step op s)"
  proof (cases op)
    case (OpLogLLMCall p)
    then show ?thesis using at_most_one_more_logLLMCall [OF assms(2) r] by simp
  next
    case (OpLogToolCall p)
    then show ?thesis using at_most_one_more_logToolCall [OF assms(2) r] by simp
  next
    case (OpLogAgentDefinition p)
    then show ?thesis using at_most_one_more_logAgentDefinition [OF assms(2) r] by simp
  next
    case (OpAgentEvent ev)
    then show ?thesis
      using at_most_one_more_handleAgentEvent [OF assms(2) r] at_most_one_more_same [OF r]
      by simp
  next
    case (ClockAdvances d)
    then show ?thesis by (simp add: at_most_one_more_def)
  qed (use assms(1) in simp_all)
  then show ?thesis by (simp add: at_most_one_more_def)
qed

lemma quiet_run:
  "\<forall>op \<in> set ops. log_or_signal op \<Longrightarrow> length (eventBuffer s) + length ops < 100 \<Longrightarrow>
     ingestCalls (run ops s) = ingestCalls s
     \<and> length (eventBuffer (run ops s)) \<le> length (eventBuffer s) + length ops"
proof (induction ops arbitrary: s)
  case Nil
  then show ?case by simp
next
  case (Cons op ops)
  have q: "ingestCalls (step op s) = ingestCalls s"
      "length (eventBuffer (step op s)) \<le> length (eventBuffer s) + 1"
    using quiet_step [of op s] Cons.prems by simp_all
  have "length (eventBuffer (step op s)) + length ops < 100"
    using q(2) Cons.prems(2) by simp
  then show ?case
    using Cons.IH [of "step op s"] Cons.prems(1) q by simp
qed

lemma log_or_signal_middle: "log_or_signal op \<Longrightarrow> middle_op k op"
  by (cases op) simp_all

lemma single_batch_when_short:
  assumes "\<forall>op \<in> set ops. log_or_signal op"
    and "length (eventBuffer (run pre (initial_state now ids True))) + length ops + 1 < 100"
    and "en_sessionKey q = st_sessionKey p"
  shows "\<exists>b ts mid te.
           ingestCalls (run (pre @ OpStartTrajectory p # ops @ [OpEndTrajectory q])
               (initial_state now ids True))
             = ingestCalls (run pre (initial_state now ids True)) @ [b]
           \<and> events_of (String_of_number (runIdCounter (run pre (initial_state now ids True)))) b
               = ts # mid @ [te]
           \<and> event_type ts = task_start \<and> event_type te = task_end
           \<and> (\<forall>e \<in> set mid. event_type e \<noteq> task_start \<and> event_type e \<noteq> task_end)"
proof -
  define s0 where "s0 = run pre (initial_state now ids True)"
  define rid where "rid = String_of_number (runIdCounter s0)"
  define s1 where "s1 = snd (startTrajectory p s0)"
  define s2 where "s2 = run ops s1"
  have "marloClient (initial_state now ids True)"
    by (simp add: initial_state_def)
  then have c0: "marloClient s0" and a0: "ids_allocated s0"
    unfolding s0_def using ids_allocated_run ids_allocated_initial by blast+
  have m: "\<forall>op \<in> set ops. middle_op (st_sessionKey p) op"
    using assms(1) log_or_signal_middle by blast
  have l0: "length (eventBuffer s0) + length ops + 1 < 100"
    using assms(2) by (simp add: s0_def)
  have s1: "ingestCalls s1 = ingestCalls s0" "length (eventBuffer s1) = length (eventBuffer s0) + 1"
    using l0
    by (simp_all add: s1_def startTrajectory_def generateRunId_def generateTaskId_def
          randomUUID_def createEvent_def generateEventId_def Let_def bufferEvent_eq)
  have s2: "ingestCalls s2 = ingestCalls s0"
    using quiet_run [OF assms(1), of s1] s1 l0 by (simp add: s2_def)
  have ip: "in_progress rid (st_sessionKey p) s2"
    unfolding s2_def s1_def rid_def
    using in_progress_run [OF in_progress_start [OF c0 a0] m] .
  then obtain t where t: "activeTrajectories s2 (en_sessionKey q) = Some t"
    using assms(3) by (auto simp add: in_progress_def)
  have c2: "marloClient s2" using ip by (simp add: in_progress_def)
  define b where "b = eventBuffer s2 @ [fst (createEvent t task_end
    (TaskEndPayload (en_status q) (en_finalAnswer q) (en_error q) (en_metadata q)) s2)]"
  have e: "ingestCalls (endTrajectory q s2) = ingestCalls s0 @ [b]"
    using s2 t c2 by (simp add: endTrajectory_eq bufferEvent_eq flushBuffer_eq b_def)
  obtain ts mid te where d:
      "events_of rid (concat (ingestCalls (endTrajectory q s2))) = ts # mid @ [te]"
      "event_type ts = task_start" "event_type te = task_end"
      "\<forall>e \<in> set mid. event_type e \<noteq> task_start \<and> event_type e \<noteq> task_end"
    using in_progress_end [OF ip assms(3)] by blast
  have "events_of rid (concat (ingestCalls s0)) = []"
    using ids_allocated_fresh(1) [OF a0] by (simp add: events_of_def rid_def all_events_def)
  then have "events_of rid b = ts # mid @ [te]"
    using d(1) by (simp add: e events_of_append)
  moreover have "run (pre @ OpStartTrajectory p # ops @ [OpEndTrajectory q])
      (initial_state now ids True) = endTrajectory q s2"
    by (simp add: run_append s2_def s1_def s0_def)
  ultimately show ?thesis
    using e d(2,3,4) unfolding rid_def s0_def by metis
qed

text \<open>
  C1 as stated fails: with 99 tool calls between the start and the end, the buffer reaches
  its maximum size at the 99th call and is flushed, so the transport receives two batches:
  the \<open>task_start\<close> with the tool calls, and the \<open>task_end\<close> alone. The batch that
  \<open>endTrajectory\<close> delivers holds no \<open>task_start\<close>, and no batch holds both.
\<close>

theorem single_batch_counterexample:
  "map (map event_type) (ingestCalls (run long_trace fresh))
     = [task_start # replicate 99 tool_call, [task_end]]"
proof -
  let ?s2 = "run (replicate 98 (OpLogToolCall (tool_params ''s1''))) started"
  let ?s3 = "logToolCall (tool_params ''s1'') ?s2"
  have k: "tc_sessionKey (tool_params ''s1'') = ''s1''" by (simp add: tool_params_def)
  have l: "length (eventBuffer started) = 1"
    using arg_cong [OF started_facts(1), of length] by simp
  have s2: "map event_type (eventBuffer ?s2) = task_start # replicate 98 tool_call"
      "ingestCalls ?s2 = []" "activeTrajectories ?s2 ''s1'' \<noteq> None" "marloClient ?s2"
    using run_tool_calls_below_threshold [of started "tool_params ''s1''" 98] started_facts l
    by (simp_all add: k)
  have l2: "length (eventBuffer ?s2) = 99"
    using arg_cong [OF s2(1), of length] by simp
  from s2(3) obtain t where t: "activeTrajectories ?s2 ''s1'' = Some t" by auto
  have s3: "map (map event_type) (ingestCalls ?s3) = [task_start # replicate 98 tool_call @ [tool_call]]"
      "eventBuffer ?s3 = []" "activeTrajectories ?s3 ''s1'' = Some t" "marloClient ?s3"
    using s2 l2 t by (simp_all add: logToolCall_eq k bufferEvent_eq createEvent_fields)
  have "map (map event_type) (ingestCalls (endTrajectory (demo_end ''s1'') ?s3))
          = [task_start # replicate 98 tool_call @ [tool_call], [task_end]]"
    using s3 by (simp add: endTrajectory_eq demo_end_def bufferEvent_eq flushBuffer_eq createEvent_fields)
  moreover have "replicate 98 tool_call @ [tool_call] = replicate 99 tool_call"
    using replicate_append_same [of 98 tool_call] replicate_Suc [of 98 tool_call]
    by (simp only: numeral_99)
  moreover have "run long_trace fresh = endTrajectory (demo_end ''s1'') ?s3"
  proof -
    have "replicate 99 (OpLogToolCall (tool_params ''s1''))
        = replicate 98 (OpLogToolCall (tool_params ''s1'')) @ [OpLogToolCall (tool_params ''s1'')]"
      using replicate_append_same [of 98 "OpLogToolCall (tool_params ''s1'')"]
        replicate_Suc [of 98 "OpLogToolCall (tool_params ''s1'')"]
      by (simp only: numeral_99)
    then show ?thesis
      by (simp only: long_trace_def run_append run.simps step.simps started_def)
  qed
  ultimately show ?thesis by simp
qed

subsection \<open>C2: pending text at the end of a trajectory\<close>

text \<open>
  What \<open>flushPendingLLMEvents\<close> does for a session with an active trajectory and a
  pending text: the timer is cancelled, the text is emitted as one \<open>llm_call\<close> event, and
  the pending entry is removed.
\<close>

lemma flushPendingLLMEvents_emits_pending:
  assumes "marloClient s" and "activeTrajectories s k \<noteq> None" and "llmPendingData s k = Some pd"
  shows "llmDebounceTimers (flushPendingLLMEvents k s) k = None
     \<and> llmPendingData (flushPendingLLMEvents k s) k = None
     \<and> (\<exists>e. all_events (flushPendingLLMEvents k s) = all_events s @ [e]
            \<and> event_type e = llm_call \<and> response_text e = Some (pending_text pd))"
  using assms
  by (auto simp add: flushPendingLLMEvents_def Let_def logLLMCall_eq bufferEvent_keeps
        all_events_bufferEvent all_events_listener_upd all_events_uuidsDrawn createEvent_fields
        response_text_def)

text \<open>\<open>endTrajectory\<close> does not touch the debounce timers or the pending texts.\<close>

lemma endTrajectory_keeps_debounce_state:
  "llmDebounceTimers (endTrajectory q s) = llmDebounceTimers s
   \<and> llmPendingData (endTrajectory q s) = llmPendingData s"
  by (simp add: endTrajectory_eq flushBuffer_keeps bufferEvent_keeps split: option.splits)

text \<open>
  C2 (the code at the failing input). A trajectory starts, the text \<open>hello\<close> arrives, and
  the trajectory ends before the debounce timer fires. \<open>endTrajectory\<close> delivers the
  batch \<open>[task_start, task_end]\<close>, with the timer still live and the text still pending;
  when the timer fires, the session has no trajectory, \<open>logLLMCall\<close> does nothing, and the
  text is dropped.
\<close>

theorem endTrajectory_loses_pending_text:
  "map (map event_type) (ingestCalls (run unflushed_trace fresh)) = [[task_start, task_end]]
   \<and> eventBuffer (run unflushed_trace fresh) = []
   \<and> llmDebounceTimers (run unflushed_trace fresh) ''s1'' = Some 1100
   \<and> map_option pending_text (llmPendingData (run unflushed_trace fresh) ''s1'') = Some ''hello''
   \<and> map event_type (all_events
        (run (unflushed_trace @ [ClockAdvances 100, DebounceTimerFires ''s1'']) fresh))
       = [task_start, task_end]
   \<and> llmPendingData
        (run (unflushed_trace @ [ClockAdvances 100, DebounceTimerFires ''s1'']) fresh) ''s1''
       = None"
  by (simp add: unflushed_trace_def eval_defs)

subsection \<open>C3: logging without an active trajectory\<close>

text \<open>
  C3. For a session key with no active trajectory, \<open>logLLMCall\<close>, \<open>logToolCall\<close> and
  \<open>logAgentDefinition\<close> return the state they were given: no event is created or queued,
  the buffer is as long as before, and no branch of the functions raises.
\<close>

theorem log_without_trajectory_is_noop:
  assumes "\<not> hasActiveTrajectory (lc_sessionKey pl) s"
    and "\<not> hasActiveTrajectory (tc_sessionKey pt) s"
    and "\<not> hasActiveTrajectory (ad_sessionKey pa) s"
  shows "logLLMCall pl s = s \<and> logToolCall pt s = s \<and> logAgentDefinition pa s = s"
  using assms
  by (simp add: hasActiveTrajectory_def logLLMCall_def logToolCall_def logAgentDefinition_def)

theorem log_without_trajectory_is_noop_witness:
  "\<not> hasActiveTrajectory (lc_sessionKey (llm_params ''s1'' ''hi'')) fresh
   \<and> \<not> hasActiveTrajectory (tc_sessionKey (tool_params ''s1'')) fresh
   \<and> \<not> hasActiveTrajectory (ad_sessionKey (agentdef_params ''s1'')) fresh
   \<and> logLLMCall (llm_params ''s1'' ''hi'') fresh = fresh
   \<and> logToolCall (tool_params ''s1'') fresh = fresh
   \<and> logAgentDefinition (agentdef_params ''s1'') fresh = fresh
   \<and> length (eventBuffer (logToolCall (tool_params ''s1'') fresh)) = length (eventBuffer fresh)"
proof -
  have h1: "\<not> hasActiveTrajectory (lc_sessionKey (llm_params ''s1'' ''hi'')) fresh"
    by (simp add: hasActiveTrajectory_def fresh_def initial_state_def)
  have h2: "\<not> hasActiveTrajectory (tc_sessionKey (tool_params ''s1'')) fresh"
    by (simp add: hasActiveTrajectory_def fresh_def initial_state_def)
  have h3: "\<not> hasActiveTrajectory (ad_sessionKey (agentdef_params ''s1'')) fresh"
    by (simp add: hasActiveTrajectory_def fresh_def initial_state_def)
  from log_without_trajectory_is_noop [OF h1 h2 h3] h1 h2 h3 show ?thesis by simp
qed

subsection \<open>C4: a second startTrajectory for the same session\<close>

text \<open>
  C4. When the session already has an active trajectory, \<open>startTrajectory\<close> stores the new
  trajectory in its place (new run identifier, no events) and changes no other session;
  the old one, with its different run identifier, is no longer in the store. With a
  client, the events grow by exactly one, the \<open>task_start\<close> of the new trajectory; in
  every case the number of \<open>task_end\<close> events does not grow, so none is synthesized for
  the abandoned trajectory.
\<close>

theorem startTrajectory_overwrites_silently:
  assumes "activeTrajectories s (st_sessionKey p) = Some old"
  shows "activeTrajectories (snd (startTrajectory p s))
           = (activeTrajectories s)(st_sessionKey p \<mapsto> fst (startTrajectory p s))
     \<and> runId (fst (startTrajectory p s)) = String_of_number (runIdCounter s)
     \<and> sessionKey (fst (startTrajectory p s)) = st_sessionKey p
     \<and> startedAt (fst (startTrajectory p s)) = clock s
     \<and> events (fst (startTrajectory p s)) = []
     \<and> (runId old \<noteq> String_of_number (runIdCounter s) \<longrightarrow>
          activeTrajectories (snd (startTrajectory p s)) (st_sessionKey p) \<noteq> Some old)
     \<and> (marloClient s \<longrightarrow>
          (\<exists>e. all_events (snd (startTrajectory p s)) = all_events s @ [e]
             \<and> event_type e = task_start
             \<and> run_id e = JStr (runId (fst (startTrajectory p s)))))
     \<and> length (filter is_task_end (all_events (snd (startTrajectory p s))))
          \<le> length (filter is_task_end (all_events s))"
  using startTrajectory_emits [of s p] startTrajectory_task_ends [of p s]
  by (auto simp add: startTrajectory_state startTrajectory_trajectory)

theorem startTrajectory_overwrites_silently_witness:
  "activeTrajectories started (st_sessionKey (demo_start ''s1''))
     = Some \<lparr> runId = ''1000'', sessionKey = ''s1'', taskId = demo_ids 0, agentId = ''moltbot'',
             startedAt = 1000, events = [] \<rparr>
   \<and> ''1000'' \<noteq> String_of_number (runIdCounter started)
   \<and> marloClient started
   \<and> activeTrajectories (snd (startTrajectory (demo_start ''s1'') started)) ''s1''
     = Some \<lparr> runId = ''1001'', sessionKey = ''s1'', taskId = demo_ids 2, agentId = ''moltbot'',
             startedAt = 1000, events = [] \<rparr>
   \<and> map event_type (all_events started) = [task_start]
   \<and> map event_type (all_events (snd (startTrajectory (demo_start ''s1'') started)))
     = [task_start, task_start]
   \<and> length (filter is_task_end (all_events (snd (startTrajectory (demo_start ''s1'') started)))) = 0"
proof -
  have h: "activeTrajectories started (st_sessionKey (demo_start ''s1''))
     = Some \<lparr> runId = ''1000'', sessionKey = ''s1'', taskId = demo_ids 0, agentId = ''moltbot'',
             startedAt = 1000, events = [] \<rparr>"
    by (simp add: started_def eval_defs String_of_number_1000)
  have c: "runIdCounter started = 1001" "marloClient started" "clock started = 1000"
      "uuids started = demo_ids" "uuidsDrawn started = 2"
      "map event_type (all_events started) = [task_start]"
      "filter is_task_end (all_events started) = []"
    by (simp_all add: started_def eval_defs is_task_end_def)
  from startTrajectory_overwrites_silently [OF h] h c show ?thesis
    by (auto simp add: String_of_number_1001 startTrajectory_trajectory demo_start_def
          MOLTBOT_AGENT_ID_def)
qed

subsection \<open>C5: the fragments a, ab, abc settle to one llm_call\<close>

lemma handleAgentEvent_text:
  assumes "marloClient s" and "sk \<noteq> []" and "activeTrajectories s sk \<noteq> None" and "txt \<noteq> []"
  shows "handleAgentEvent (text_signal rid sk txt) s =
     (if prefix txt (recorded_text s sk)
      then s\<lparr> runIdToSession := (runIdToSession s)(rid \<mapsto> sk) \<rparr>
      else s\<lparr> runIdToSession := (runIdToSession s)(rid \<mapsto> sk),
              llmPendingData := (llmPendingData s)
                (sk \<mapsto> \<lparr> pending_text = txt, pending_model = Some ''gpt'',
                          pending_provider = Some ''openai'' \<rparr>),
              lastLLMTextBySession := (lastLLMTextBySession s)(sk \<mapsto> txt),
              llmDebounceTimers := (llmDebounceTimers s)(sk \<mapsto> clock s + 100) \<rparr>)"
  using assms
  by (auto simp add: handleAgentEvent_def text_signal_def truthy_string_def hasActiveTrajectory_def
        handleAssistantEvent_def recorded_text_def Let_def LLM_DEBOUNCE_MS_def)

text \<open>
  C5 (as amended). For a session with an active trajectory, a subscribed listener and a
  client, whose recorded last text does not start with \<open>abc\<close> (in particular a session
  with no recorded text): the fragments \<open>a\<close>, \<open>ab\<close>, \<open>abc\<close>, with no firing of the
  debounce timer in between, emit nothing before the timer fires; when it fires, at least
  100 ms after the last fragment, exactly one event is emitted, an \<open>llm_call\<close> whose
  response text is \<open>abc\<close>, and the pending entry and the timer are gone.
\<close>

theorem fragments_settle_to_one_llm_call:
  assumes "unsubscribe s" and "marloClient s" and "sk \<noteq> []"
    and "activeTrajectories s sk \<noteq> None"
    and "\<not> prefix ''abc'' (recorded_text s sk)"
    and "100 \<le> d3"
  shows "all_events (run (butlast (fragments_trace rid sk d1 d2 d3)) s) = all_events s
     \<and> (\<exists>e. all_events (run (fragments_trace rid sk d1 d2 d3) s) = all_events s @ [e]
            \<and> event_type e = llm_call \<and> response_text e = Some ''abc'')
     \<and> llmPendingData (run (fragments_trace rid sk d1 d2 d3) s) sk = None
     \<and> llmDebounceTimers (run (fragments_trace rid sk d1 d2 d3) s) sk = None"
proof -
  from assms(4) obtain t where t: "activeTrajectories s sk = Some t" by auto
  have p: "\<not> prefix ''abc'' ''a''" "\<not> prefix ''abc'' ''ab''" "\<not> prefix ''ab'' ''a''"
    by simp_all
  show ?thesis
    using assms(1,2,3,5,6) t p
    by (simp add: fragments_trace_def handleAgentEvent_text recorded_text_def
          llmDebounceCallback_def logLLMCall_eq all_events_bufferEvent bufferEvent_keeps
          all_events_listener_upd all_events_uuidsDrawn createEvent_fields
          response_text_def Let_def
        split: option.splits)
qed

theorem fragments_settle_to_one_llm_call_witness:
  "unsubscribe listening \<and> marloClient listening \<and> ''s1'' \<noteq> []
   \<and> activeTrajectories listening ''s1'' \<noteq> None
   \<and> \<not> prefix ''abc'' (recorded_text listening ''s1'')
   \<and> (100::nat) \<le> 100
   \<and> all_events (run (butlast (fragments_trace ''r1'' ''s1'' 10 10 100)) listening)
       = all_events listening
   \<and> (\<exists>e. all_events (run (fragments_trace ''r1'' ''s1'' 10 10 100) listening)
            = all_events listening @ [e]
          \<and> event_type e = llm_call \<and> response_text e = Some ''abc'')
   \<and> map event_type (all_events (run (fragments_trace ''r1'' ''s1'' 10 10 100) listening))
       = [task_start, llm_call]"
proof -
  have h: "unsubscribe listening" "marloClient listening" "''s1'' \<noteq> []"
      "activeTrajectories listening ''s1'' \<noteq> None"
      "\<not> prefix ''abc'' (recorded_text listening ''s1'')" "(100::nat) \<le> 100"
    by (simp_all add: listening_def eval_defs recorded_text_def)
  have ev: "map event_type (all_events (run (fragments_trace ''r1'' ''s1'' 10 10 100) listening))
      = [task_start, llm_call]"
    by (simp add: listening_def fragments_trace_def eval_defs)
  from fragments_settle_to_one_llm_call [OF h, of "''r1''" 10 10] h ev show ?thesis by blast
qed

text \<open>
  The other case: when the recorded last text starts with \<open>abc\<close> and nothing is pending
  for the session, the three fragments are discarded and no event is produced.
\<close>

lemma fragments_discarded_when_recorded:
  assumes "unsubscribe s" and "marloClient s" and "sk \<noteq> []"
    and "activeTrajectories s sk \<noteq> None"
    and "prefix ''abc'' (recorded_text s sk)"
    and "llmDebounceTimers s sk = None"
  shows "all_events (run (fragments_trace rid sk d1 d2 d3) s) = all_events s"
proof -
  have "prefix ''a'' (recorded_text s sk)" "prefix ''ab'' (recorded_text s sk)"
    using assms(5) prefix_order.trans [of "''a''" "''abc''"] prefix_order.trans [of "''ab''" "''abc''"]
    by simp_all
  then show ?thesis
    using assms
    by (simp add: fragments_trace_def handleAgentEvent_text recorded_text_def
          all_events_listener_upd)
qed

text \<open>
  C5 as stated fails: the session has an active trajectory in which the text \<open>abc\<close> has
  already settled, so \<open>abc\<close> is still the recorded last text. The fragments \<open>a\<close>, \<open>ab\<close>,
  \<open>abc\<close> are then each a backward delta and are discarded: no \<open>llm_call\<close> is produced.
\<close>

theorem repeated_text_counterexample:
  "map event_type (all_events (run settled_trace fresh)) = [task_start, llm_call]
   \<and> hasActiveTrajectory ''s1'' (run settled_trace fresh)
   \<and> map event_type (all_events (run (fragments_trace ''r1'' ''s1'' 10 10 100)
        (run settled_trace fresh)))
     = [task_start, llm_call]"
  by (simp add: settled_trace_def fragments_trace_def eval_defs)

subsection \<open>C6: bufferEvent\<close>

text \<open>
  C6. \<open>bufferEvent\<close> appends the event. Below the maximum size (100) the event stays in
  the buffer and nothing is sent; a flush timer is scheduled 5000 ms ahead if none is
  running, and a running one is kept; the events are still buffered when the timer is
  not yet due, and are sent, with a client, when it fires. When the buffer reaches the
  maximum size it is flushed at once, whatever the timer: the buffer is empty, the timer
  is cancelled and, with a client, the whole buffer is one new batch.
\<close>

theorem bufferEvent_appends_schedules_and_flushes:
  "(length (eventBuffer s) + 1 < maxSize BUFFER_SETTINGS \<longrightarrow>
      eventBuffer (bufferEvent e s) = eventBuffer s @ [e]
      \<and> ingestCalls (bufferEvent e s) = ingestCalls s
      \<and> (flushTimer s = None \<longrightarrow>
            flushTimer (bufferEvent e s) = Some (clock s + flushIntervalMs BUFFER_SETTINGS))
      \<and> (flushTimer s \<noteq> None \<longrightarrow> flushTimer (bufferEvent e s) = flushTimer s)
      \<and> (flushTimer (bufferEvent e s) = Some due \<and> clock s + int d < due \<longrightarrow>
            eventBuffer (run [ClockAdvances d, FlushTimerFires] (bufferEvent e s))
              = eventBuffer s @ [e]
            \<and> ingestCalls (run [ClockAdvances d, FlushTimerFires] (bufferEvent e s))
              = ingestCalls s)
      \<and> (flushTimer (bufferEvent e s) = Some due \<and> due \<le> clock s + int d
               \<and> marloClient s \<longrightarrow>
            eventBuffer (run [ClockAdvances d, FlushTimerFires] (bufferEvent e s)) = []
            \<and> ingestCalls (run [ClockAdvances d, FlushTimerFires] (bufferEvent e s))
              = ingestCalls s @ [eventBuffer s @ [e]]))
   \<and> (length (eventBuffer s) + 1 \<ge> maxSize BUFFER_SETTINGS \<longrightarrow>
      eventBuffer (bufferEvent e s) = []
      \<and> flushTimer (bufferEvent e s) = None
      \<and> (marloClient s \<longrightarrow> ingestCalls (bufferEvent e s) = ingestCalls s @ [eventBuffer s @ [e]]))
   \<and> maxSize BUFFER_SETTINGS = 100 \<and> flushIntervalMs BUFFER_SETTINGS = 5000"
  by (auto simp add: bufferEvent_eq flushBuffer_eq BUFFER_SETTINGS_def split: option.splits)

theorem bufferEvent_appends_schedules_and_flushes_witness:
  "length (eventBuffer fresh) + 1 < maxSize BUFFER_SETTINGS
   \<and> flushTimer fresh = None \<and> marloClient fresh
   \<and> eventBuffer (bufferEvent (demo_event ''7'' tool_call) fresh) = [demo_event ''7'' tool_call]
   \<and> flushTimer (bufferEvent (demo_event ''7'' tool_call) fresh) = Some 6000
   \<and> ingestCalls (bufferEvent (demo_event ''7'' tool_call) fresh) = []
   \<and> clock fresh + int 4999 < 6000
   \<and> eventBuffer (run [ClockAdvances 4999, FlushTimerFires]
        (bufferEvent (demo_event ''7'' tool_call) fresh)) = [demo_event ''7'' tool_call]
   \<and> 6000 \<le> clock fresh + int 5000
   \<and> ingestCalls (run [ClockAdvances 5000, FlushTimerFires]
        (bufferEvent (demo_event ''7'' tool_call) fresh)) = [[demo_event ''7'' tool_call]]
   \<and> length (eventBuffer nearly_full) + 1 \<ge> maxSize BUFFER_SETTINGS
   \<and> flushTimer nearly_full \<noteq> None \<and> marloClient nearly_full
   \<and> eventBuffer (bufferEvent (demo_event ''7'' llm_call) nearly_full) = []
   \<and> flushTimer (bufferEvent (demo_event ''7'' llm_call) nearly_full) = None
   \<and> ingestCalls (bufferEvent (demo_event ''7'' llm_call) nearly_full)
       = [replicate 99 (demo_event ''7'' tool_call) @ [demo_event ''7'' llm_call]]"
proof -
  have f: "length (eventBuffer fresh) + 1 < maxSize BUFFER_SETTINGS" "flushTimer fresh = None"
      "marloClient fresh" "clock fresh = 1000" "eventBuffer fresh = []" "ingestCalls fresh = []"
    by (simp_all add: fresh_def initial_state_def BUFFER_SETTINGS_def)
  have n: "length (eventBuffer nearly_full) + 1 \<ge> maxSize BUFFER_SETTINGS"
      "flushTimer nearly_full \<noteq> None" "marloClient nearly_full"
      "eventBuffer nearly_full = replicate 99 (demo_event ''7'' tool_call)"
      "ingestCalls nearly_full = []"
    by (simp_all add: nearly_full_def fresh_def initial_state_def BUFFER_SETTINGS_def)
  have t: "flushTimer (bufferEvent (demo_event ''7'' tool_call) fresh) = Some 6000"
    using bufferEvent_appends_schedules_and_flushes
      [where s = fresh and e = "demo_event ''7'' tool_call"] f
    by (simp add: BUFFER_SETTINGS_def)
  from bufferEvent_appends_schedules_and_flushes
      [where s = fresh and e = "demo_event ''7'' tool_call" and d = 4999 and due = 6000]
    bufferEvent_appends_schedules_and_flushes
      [where s = fresh and e = "demo_event ''7'' tool_call" and d = 5000 and due = 6000]
    bufferEvent_appends_schedules_and_flushes
      [where s = nearly_full and e = "demo_event ''7'' llm_call"]
    f n t
  show ?thesis by simp
qed

subsection \<open>C7: flushBuffer\<close>

text \<open>
  C7. \<open>flushBuffer\<close> cancels the flush timer and leaves an empty buffer, so an event
  enqueued while the send is in flight is alone in a fresh buffer. On an empty buffer it
  sends nothing and changes nothing but the timer. On a non-empty buffer, with a client,
  it hands the whole buffer to the client as one batch. When the client's promise later
  rejects, in whatever state the module then is, \<open>flushBuffer\<close>'s own promise is fulfilled
  (no exception reaches the caller), the buffer is what it was (the batch is not
  re-queued), and only a warning is logged.
\<close>

theorem flushBuffer_swaps_and_swallows:
  "flushTimer (snd (flushBuffer s)) = None
   \<and> eventBuffer (snd (flushBuffer s)) = []
   \<and> eventBuffer (bufferEvent e (snd (flushBuffer s))) = [e]
   \<and> (eventBuffer s = [] \<longrightarrow> flushBuffer s = (Resolved, s\<lparr> flushTimer := None \<rparr>))
   \<and> (eventBuffer s = [] \<and> flushTimer s = None \<longrightarrow> flushBuffer s = (Resolved, s))
   \<and> (eventBuffer s \<noteq> [] \<and> marloClient s \<longrightarrow>
        flushBuffer s = (AwaitingIngest (eventBuffer s),
          s\<lparr> flushTimer := None, eventBuffer := [],
             ingestCalls := ingestCalls s @ [eventBuffer s] \<rparr>))
   \<and> fst (flushBuffer_resume (Inl err) t) = Inr ()
   \<and> eventBuffer (snd (flushBuffer_resume (Inl err) t)) = eventBuffer t
   \<and> snd (flushBuffer_resume (Inl err) t)
       = t\<lparr> warnings := warnings t @ [''Failed to flush events to Marlo: '' @ err] \<rparr>"
  by (simp add: flushBuffer_eq bufferEvent_eq flushBuffer_resume_def)

theorem flushBuffer_swaps_and_swallows_witness:
  "eventBuffer fresh = [] \<and> flushTimer fresh = None
   \<and> flushBuffer fresh = (Resolved, fresh)
   \<and> eventBuffer nearly_full \<noteq> [] \<and> marloClient nearly_full
   \<and> fst (flushBuffer nearly_full) = AwaitingIngest (replicate 99 (demo_event ''7'' tool_call))
   \<and> ingestCalls (snd (flushBuffer nearly_full)) = [replicate 99 (demo_event ''7'' tool_call)]
   \<and> eventBuffer (snd (flushBuffer nearly_full)) = []
   \<and> flushTimer (snd (flushBuffer nearly_full)) = None
   \<and> eventBuffer (bufferEvent (demo_event ''7'' llm_call) (snd (flushBuffer nearly_full)))
       = [demo_event ''7'' llm_call]
   \<and> fst (flushBuffer_resume (Inl ''Error: Marlo ingest failed: 500'')
        (snd (flushBuffer nearly_full))) = Inr ()
   \<and> eventBuffer (snd (flushBuffer_resume (Inl ''Error: Marlo ingest failed: 500'')
        (snd (flushBuffer nearly_full)))) = []"
proof -
  have f: "eventBuffer fresh = []" "flushTimer fresh = None"
    by (simp_all add: fresh_def initial_state_def)
  have n: "eventBuffer nearly_full \<noteq> []" "marloClient nearly_full"
    by (simp_all add: nearly_full_def fresh_def initial_state_def)
  have m: "eventBuffer nearly_full = replicate 99 (demo_event ''7'' tool_call)"
      "ingestCalls nearly_full = []"
    by (simp_all add: nearly_full_def fresh_def initial_state_def)
  note A = flushBuffer_swaps_and_swallows
      [where s = fresh and e = "demo_event ''7'' llm_call"
         and err = "''Error: Marlo ingest failed: 500''" and t = fresh]
  note B = flushBuffer_swaps_and_swallows
      [where s = nearly_full and e = "demo_event ''7'' llm_call"
         and err = "''Error: Marlo ingest failed: 500''" and t = "snd (flushBuffer nearly_full)"]
  from A f have a: "flushBuffer fresh = (Resolved, fresh)"
    by blast
  from B n have b: "flushBuffer nearly_full = (AwaitingIngest (eventBuffer nearly_full),
      nearly_full\<lparr> flushTimer := None, eventBuffer := [],
        ingestCalls := ingestCalls nearly_full @ [eventBuffer nearly_full] \<rparr>)"
    by blast
  from B have c: "eventBuffer (snd (flushBuffer nearly_full)) = []"
      "flushTimer (snd (flushBuffer nearly_full)) = None"
      "eventBuffer (bufferEvent (demo_event ''7'' llm_call) (snd (flushBuffer nearly_full)))
         = [demo_event ''7'' llm_call]"
      "fst (flushBuffer_resume (Inl ''Error: Marlo ingest failed: 500'')
         (snd (flushBuffer nearly_full))) = Inr ()"
      "eventBuffer (snd (flushBuffer_resume (Inl ''Error: Marlo ingest failed: 500'')
         (snd (flushBuffer nearly_full)))) = eventBuffer (snd (flushBuffer nearly_full))"
    by blast+
  have d: "fst (flushBuffer nearly_full) = AwaitingIngest (replicate 99 (demo_event ''7'' tool_call))"
      "ingestCalls (snd (flushBuffer nearly_full)) = [replicate 99 (demo_event ''7'' tool_call)]"
    by (simp_all add: b m)
  show ?thesis
    using f n a c d by simp
qed

subsection \<open>C8: the correlation entry at the end of a run\<close>

text \<open>
  What \<open>handleLifecycleEvent\<close> does once it is reached: phase \<open>end\<close> removes the entry.
\<close>

lemma handleLifecycleEvent_purges:
  "d_phase d = Some ''end'' \<Longrightarrow> runIdToSession (handleLifecycleEvent rid sk d s) rid = None"
  by (simp add: handleLifecycleEvent_def)

text \<open>
  The signal reaches \<open>handleLifecycleEvent\<close> when there is a client and the session
  it resolves to has an active trajectory; then the entry is removed.
\<close>

lemma lifecycle_end_purges_when_dispatched:
  assumes "marloClient s" and "sk \<noteq> []" and "activeTrajectories s sk \<noteq> None"
  shows "runIdToSession (handleAgentEvent (lifecycle_signal rid (Some sk) ''end'') s) rid = None"
  using assms
  by (auto simp add: handleAgentEvent_def lifecycle_signal_def truthy_string_def
        hasActiveTrajectory_def handleLifecycleEvent_def Let_def)

text \<open>
  C8 (the code at the failing input). \<open>handleAgentEvent\<close> records the entry for the run
  before it checks for an active trajectory, and returns at that check before the stream
  is dispatched. So the lifecycle \<open>end\<close> signal of run \<open>r1\<close>, arriving after the
  trajectory of its session has ended, leaves the entry of \<open>r1\<close> in place; and the
  lifecycle \<open>end\<close> signal of a run \<open>r2\<close> whose session never had a trajectory creates an
  entry for \<open>r2\<close> instead of removing one.
\<close>

theorem lifecycle_end_keeps_entry:
  "runIdToSession (run stale_entry_trace fresh) ''r1'' = Some ''s1''
   \<and> runIdToSession (run [OpStartEventListener,
          OpAgentEvent (lifecycle_signal ''r2'' (Some ''s2'') ''end'')] fresh) ''r2''
       = Some ''s2''"
  by (simp add: stale_entry_trace_def eval_defs)

subsection \<open>C9: the run identifier on the wire\<close>

text \<open>
  Successive calls of \<open>startTrajectory\<close> allocate the counter's value and the next one, and
  every event takes the run identifier of its trajectory, which is the decimal string of
  the number allocated.
\<close>

lemma run_ids_increase:
  "runId (fst (startTrajectory p s)) = String_of_number (runIdCounter s)
   \<and> runId (fst (startTrajectory p' (snd (startTrajectory p s))))
       = String_of_number (runIdCounter s + 1)
   \<and> runIdCounter s < runIdCounter (snd (startTrajectory p s))"
  by (simp add: startTrajectory_trajectory startTrajectory_state)

text \<open>
  C9 (the code at the failing input). In a process loaded at time 1000, a trajectory is
  started and ended. Both events handed to the transport carry the run identifier
  \<open>"1000"\<close>, a string, where types.ts declares \<open>run_id: number\<close>.
\<close>

theorem run_id_is_a_string:
  "map (map run_id) (ingestCalls (run [OpStartTrajectory (demo_start ''s1''),
        OpEndTrajectory (demo_end ''s1'')] fresh))
     = [[JStr ''1000'', JStr ''1000'']]
   \<and> JStr ''1000'' \<noteq> JNum 1000"
  by (simp add: eval_defs String_of_number_1000)

subsection \<open>C10: the recorded last text outlives settlement\<close>





end
